theory Spec2Isabelle
  imports Main "HOL-Library.Sublist" "HOL-Library.Product_Lexorder"
begin

section \<open>Strings and numbers of the JavaScript source\<close>

text \<open>
  A JavaScript string is modelled as a \<^typ>\<open>string\<close>, one character per code unit; the
  texts the program handles (identifiers, labels, container names, header values) are
  ASCII, where a character and a UTF-16 code unit coincide. The numbers of the program
  that the verified functions read (format tag, height, bitrate, HTTP status) are
  integers and are modelled as \<^typ>\<open>int\<close> or \<^typ>\<open>nat\<close>. An optional field
  (\<^verbatim>\<open>height?: number\<close>) is an \<^typ>\<open>'a option\<close>, \<^term>\<open>None\<close> standing for \<^verbatim>\<open>undefined\<close>
  or \<^verbatim>\<open>null\<close>.
\<close>

definition digit_char :: "nat \<Rightarrow> char" where
  "digit_char d = char_of (48 + d)"

text \<open>Decimal rendering of a number inside a template literal (\<^verbatim>\<open>`${n}`\<close>).\<close>

fun string_of_nat :: "nat \<Rightarrow> string" where
  "string_of_nat n =
     (if n < 10 then [digit_char n]
      else string_of_nat (n div 10) @ [digit_char (n mod 10)])"

declare string_of_nat.simps [simp del]

definition string_of_int :: "int \<Rightarrow> string" where
  "string_of_int i =
     (if i < 0 then CHR ''-'' # string_of_nat (nat (- i)) else string_of_nat (nat i))"

text \<open>\<^verbatim>\<open>String.prototype.toUpperCase\<close> and \<^verbatim>\<open>toLowerCase\<close> on ASCII text.\<close>

definition is_lower :: "char \<Rightarrow> bool" where
  "is_lower c = ((97::nat) \<le> of_char c \<and> of_char c \<le> (122::nat))"

definition is_upper :: "char \<Rightarrow> bool" where
  "is_upper c = ((65::nat) \<le> of_char c \<and> of_char c \<le> (90::nat))"

definition is_digit :: "char \<Rightarrow> bool" where
  "is_digit c = ((48::nat) \<le> of_char c \<and> of_char c \<le> (57::nat))"

definition upper_char :: "char \<Rightarrow> char" where
  "upper_char c = (if is_lower c then char_of (of_char c - (32::nat)) else c)"

definition lower_char :: "char \<Rightarrow> char" where
  "lower_char c = (if is_upper c then char_of (of_char c + (32::nat)) else c)"

definition toUpperCase :: "string \<Rightarrow> string" where
  "toUpperCase s = map upper_char s"

definition toLowerCase :: "string \<Rightarrow> string" where
  "toLowerCase s = map lower_char s"

text \<open>\<^verbatim>\<open>s.startsWith(p)\<close> and \<^verbatim>\<open>s.includes(p)\<close>.\<close>

definition startsWith :: "string \<Rightarrow> string \<Rightarrow> bool" where
  "startsWith s p = (take (length p) s = p)"

fun str_includes :: "string \<Rightarrow> string \<Rightarrow> bool" where
  "str_includes [] p = (p = [])"
| "str_includes (c # cs) p = (startsWith (c # cs) p \<or> str_includes cs p)"

text \<open>
  \<^verbatim>\<open>Array.prototype.sort(cmp)\<close>: a stable sort; \<^verbatim>\<open>cmp a b\<close> negative or zero keeps
  \<^verbatim>\<open>a\<close> before \<^verbatim>\<open>b\<close>. The model is the stable insertion sort, which every stable
  sort agrees with on a comparator that is a total preorder.
\<close>

fun insert_by :: "('a \<Rightarrow> 'a \<Rightarrow> int) \<Rightarrow> 'a \<Rightarrow> 'a list \<Rightarrow> 'a list" where
  "insert_by cmp x [] = [x]"
| "insert_by cmp x (y # ys) =
     (if cmp x y \<le> 0 then x # y # ys else y # insert_by cmp x ys)"

definition sort_by :: "('a \<Rightarrow> 'a \<Rightarrow> int) \<Rightarrow> 'a list \<Rightarrow> 'a list" where
  "sort_by cmp xs = foldr (insert_by cmp) xs []"

section \<open>Data model (src/types/video.ts)\<close>

text \<open>
  \<^verbatim>\<open>VideoFormat\<close>. The interface declares \<^verbatim>\<open>url: string\<close>, but \<^verbatim>\<open>parseFormat\<close> copies
  the value of the resolution service, which can be missing, and the catalog filter
  tests for it; so the field is optional here.
\<close>

record VideoFormat =
  itag :: int
  url :: "string option"
  mimeType :: string
  quality :: string
  qualityLabel :: "string option"
  container :: string
  hasVideo :: bool
  hasAudio :: bool
  videoCodec :: "string option"
  audioCodec :: "string option"
  width :: "int option"
  height :: "int option"
  fps :: "int option"
  bitrate :: "int option"
  contentLength :: "string option"

datatype option_group = Video | Audio

record QualityOption =
  opt_value :: string
  opt_label :: string
  opt_format :: VideoFormat
  requiresMerge :: bool
  opt_group :: option_group

section \<open>Quality selector (QualitySelector component, \<^verbatim>\<open>qualityOptions\<close>)\<close>

text \<open>\<^verbatim>\<open>n || 0\<close> on an optional number: a missing value and \<^verbatim>\<open>0\<close> both give \<^verbatim>\<open>0\<close>.\<close>

definition or0 :: "int option \<Rightarrow> int" where
  "or0 n = (case n of None \<Rightarrow> 0 | Some v \<Rightarrow> v)"

definition isAudioOnly :: "VideoFormat \<Rightarrow> bool" where
  "isAudioOnly f = (hasAudio f \<and> \<not> hasVideo f)"

definition cmpBitrate :: "VideoFormat \<Rightarrow> VideoFormat \<Rightarrow> int" where
  "cmpBitrate a b = or0 (bitrate b) - or0 (bitrate a)"

definition cmpVideo :: "VideoFormat \<Rightarrow> VideoFormat \<Rightarrow> int" where
  "cmpVideo a b =
     (let aHeight = or0 (height a); bHeight = or0 (height b)
      in if aHeight \<noteq> bHeight then bHeight - aHeight
         else or0 (bitrate b) - or0 (bitrate a))"

definition audioOption :: "VideoFormat \<Rightarrow> QualityOption" where
  "audioOption bestAudio =
     \<lparr> opt_value = ''audio-'' @ string_of_int (itag bestAudio),
       opt_label = ''MP3 Audio (Best Quality)'',
       opt_format = bestAudio,
       requiresMerge = False,
       opt_group = Audio \<rparr>"

text \<open>The key of the \<^verbatim>\<open>seen\<close> set: \<^verbatim>\<open>`${format.height || 0}-${format.hasAudio}`\<close>.\<close>

definition string_of_bool :: "bool \<Rightarrow> string" where
  "string_of_bool b = (if b then ''true'' else ''false'')"

definition seenKey :: "VideoFormat \<Rightarrow> string" where
  "seenKey f = string_of_int (or0 (height f)) @ ''-'' @ string_of_bool (hasAudio f)"

text \<open>
  \<^verbatim>\<open>format.qualityLabel || `${format.height || '?'}p`\<close>: an empty label counts as
  missing, and a missing or zero height is written \<^verbatim>\<open>?\<close>.
\<close>

definition heightText :: "VideoFormat \<Rightarrow> string" where
  "heightText f =
     (case height f of
        None \<Rightarrow> ''?''
      | Some h \<Rightarrow> if h = 0 then ''?'' else string_of_int h)"

definition qualityLabelOf :: "VideoFormat \<Rightarrow> string" where
  "qualityLabelOf f =
     (case qualityLabel f of
        None \<Rightarrow> heightText f @ ''p''
      | Some l \<Rightarrow> if l = [] then heightText f @ ''p'' else l)"

definition videoLabel :: "VideoFormat \<Rightarrow> string" where
  "videoLabel f =
     (let label = qualityLabelOf f @ '' '' @ toUpperCase (container f)
      in if hasAudio f then label @ '' (Video + Audio)''
         else label @ '' (Video Only - will merge with audio)'')"

definition videoOption :: "VideoFormat \<Rightarrow> QualityOption" where
  "videoOption f =
     \<lparr> opt_value = ''video-'' @ string_of_int (itag f),
       opt_label = videoLabel f,
       opt_format = f,
       requiresMerge = (\<not> hasAudio f),
       opt_group = Video \<rparr>"

text \<open>
  The \<^verbatim>\<open>for (const format of videoFormats)\<close> loop, with the \<^verbatim>\<open>seen\<close> set and the
  \<^verbatim>\<open>options\<close> array it pushes to as explicit state.
\<close>

fun videoLoop :: "string set \<Rightarrow> QualityOption list \<Rightarrow> VideoFormat list \<Rightarrow> QualityOption list" where
  "videoLoop seen options [] = options"
| "videoLoop seen options (f # fs) =
     (if seenKey f \<in> seen then videoLoop seen options fs
      else videoLoop (insert (seenKey f) seen) (options @ [videoOption f]) fs)"

definition qualityOptions :: "VideoFormat list \<Rightarrow> QualityOption list" where
  "qualityOptions formats =
     (let audioFormats = sort_by cmpBitrate (filter isAudioOnly formats);
          options = (case audioFormats of
                       [] \<Rightarrow> []
                     | bestAudio # _ \<Rightarrow> [audioOption bestAudio]);
          videoFormats = sort_by cmpVideo (filter hasVideo formats)
      in videoLoop {} options videoFormats)"

section \<open>Info endpoint (\<^verbatim>\<open>GET /api/info\<close>)\<close>

subsection \<open>\<^verbatim>\<open>extractVideoId\<close>\<close>

text \<open>
  The first pattern,
  \<^verbatim>\<open>/(?:youtube\.com\/watch\?v=|youtu\.be\/|youtube\.com\/embed\/|youtube\.com\/v\/)([^&\n?#]+)/\<close>,
  is not anchored: the match starts at the leftmost position where one of the four
  alternatives is followed by at least one character outside \<^verbatim>\<open>&\<close>, newline, \<^verbatim>\<open>?\<close>
  and \<^verbatim>\<open>#\<close>, and the greedy capture group takes the longest run of such characters.
\<close>

definition urlAlternatives :: "string list" where
  "urlAlternatives =
     [''youtube.com/watch?v='', ''youtu.be/'', ''youtube.com/embed/'', ''youtube.com/v/'']"

definition captureChar :: "char \<Rightarrow> bool" where
  "captureChar c = (c \<noteq> CHR ''&'' \<and> c \<noteq> CHR 0x0A \<and> c \<noteq> CHR ''?'' \<and> c \<noteq> CHR ''#'')"

fun matchAlternatives :: "string list \<Rightarrow> string \<Rightarrow> string option" where
  "matchAlternatives [] s = None"
| "matchAlternatives (p # ps) s =
     (if startsWith s p \<and> takeWhile captureChar (drop (length p) s) \<noteq> []
      then Some (takeWhile captureChar (drop (length p) s))
      else matchAlternatives ps s)"

fun searchUrlPattern :: "string \<Rightarrow> string option" where
  "searchUrlPattern [] = None"
| "searchUrlPattern (c # cs) =
     (case matchAlternatives urlAlternatives (c # cs) of
        Some t \<Rightarrow> Some t
      | None \<Rightarrow> searchUrlPattern cs)"

text \<open>The second pattern and the validation: \<^verbatim>\<open>/^([a-zA-Z0-9_-]{11})$/\<close>.\<close>

definition idChar :: "char \<Rightarrow> bool" where
  "idChar c = (is_lower c \<or> is_upper c \<or> is_digit c \<or> c = CHR ''_'' \<or> c = CHR ''-'')"

definition isVideoId :: "string \<Rightarrow> bool" where
  "isVideoId s = (length s = 11 \<and> list_all idChar s)"

definition extractVideoId :: "string \<Rightarrow> string option" where
  "extractVideoId u =
     (case searchUrlPattern u of
        Some t \<Rightarrow> Some t
      | None \<Rightarrow> if isVideoId u then Some u else None)"

subsection \<open>\<^verbatim>\<open>parseInt\<close> and \<^verbatim>\<open>formatDuration\<close>\<close>

text \<open>
  \<^verbatim>\<open>parseInt(s, 10)\<close>: leading white space, an optional sign, then the longest run of
  decimal digits; \<^term>\<open>None\<close> stands for \<^verbatim>\<open>NaN\<close> (no digit found).
\<close>

definition isSpace :: "char \<Rightarrow> bool" where
  "isSpace c = (c = CHR '' '' \<or> c = CHR 0x09 \<or> c = CHR 0x0A \<or> c = CHR 0x0B
     \<or> c = CHR 0x0C \<or> c = CHR 0x0D)"

definition digitsValue :: "string \<Rightarrow> nat" where
  "digitsValue ds = foldl (\<lambda>acc c. 10 * acc + (of_char c - 48)) 0 ds"

definition parseNat :: "string \<Rightarrow> nat option" where
  "parseNat s =
     (let ds = takeWhile is_digit s in if ds = [] then None else Some (digitsValue ds))"

definition parseInt :: "string \<Rightarrow> int option" where
  "parseInt s =
     (case dropWhile isSpace s of
        [] \<Rightarrow> None
      | c # cs \<Rightarrow>
          if c = CHR ''-'' then map_option (\<lambda>n. - int n) (parseNat cs)
          else if c = CHR ''+'' then map_option int (parseNat cs)
          else map_option int (parseNat (c # cs)))"

text \<open>The remainder \<^verbatim>\<open>a % b\<close> of JavaScript takes the sign of the dividend.\<close>

definition js_rem :: "int \<Rightarrow> int \<Rightarrow> int" where
  "js_rem a b = (if a < 0 then - ((- a) mod b) else a mod b)"

definition padStart2 :: "string \<Rightarrow> string" where
  "padStart2 s = (if length s < 2 then replicate (2 - length s) CHR ''0'' @ s else s)"

definition formatDuration :: "int option \<Rightarrow> string" where
  "formatDuration seconds =
     (case seconds of
        None \<Rightarrow> ''NaN:NaN''
      | Some s \<Rightarrow>
          (let hours = s div 3600;
               minutes = js_rem s 3600 div 60;
               secs = js_rem s 60
           in if hours > 0
              then string_of_int hours @ '':'' @ padStart2 (string_of_int minutes) @ '':''
                     @ padStart2 (string_of_int secs)
              else string_of_int minutes @ '':'' @ padStart2 (string_of_int secs)))"

subsection \<open>\<^verbatim>\<open>parseFormat\<close>\<close>

text \<open>A format object of the resolution service, every field the handler defaults optional.\<close>

record RawFormat =
  raw_itag :: int
  raw_url :: "string option"
  raw_mimeType :: "string option"
  raw_quality :: "string option"
  raw_qualityLabel :: "string option"
  raw_container :: "string option"
  raw_hasVideo :: "bool option"
  raw_hasAudio :: "bool option"
  raw_videoCodec :: "string option"
  raw_audioCodec :: "string option"
  raw_width :: "int option"
  raw_height :: "int option"
  raw_fps :: "int option"
  raw_bitrate :: "int option"
  raw_contentLength :: "string option"

text \<open>\<^verbatim>\<open>s || d\<close> on an optional string (a missing and an empty string are falsy).\<close>

definition orString :: "string option \<Rightarrow> string \<Rightarrow> string" where
  "orString s d = (case s of None \<Rightarrow> d | Some v \<Rightarrow> if v = [] then d else v)"

definition orFalse :: "bool option \<Rightarrow> bool" where
  "orFalse b = (case b of None \<Rightarrow> False | Some v \<Rightarrow> v)"

definition parseFormat :: "RawFormat \<Rightarrow> VideoFormat" where
  "parseFormat format =
     \<lparr> itag = raw_itag format,
       url = raw_url format,
       mimeType = orString (raw_mimeType format) [],
       quality = orString (raw_quality format) ''unknown'',
       qualityLabel = raw_qualityLabel format,
       container = orString (raw_container format) ''mp4'',
       hasVideo = orFalse (raw_hasVideo format),
       hasAudio = orFalse (raw_hasAudio format),
       videoCodec = raw_videoCodec format,
       audioCodec = raw_audioCodec format,
       width = raw_width format,
       height = raw_height format,
       fps = raw_fps format,
       bitrate = raw_bitrate format,
       contentLength = raw_contentLength format \<rparr>"

subsection \<open>The handler\<close>

record VideoDetails =
  vd_videoId :: string
  vd_title :: string
  vd_authorName :: "string option"
  vd_thumbnails :: "string list"
  vd_lengthSeconds :: "string option"

record YtdlInfo =
  info_formats :: "RawFormat list"
  videoDetails :: VideoDetails

record VideoInfo =
  videoId :: string
  title :: string
  author :: string
  thumbnail :: string
  duration :: "int option"
  durationFormatted :: string
  formats :: "VideoFormat list"

text \<open>An exception of the resolution service: the fields the handlers read.\<close>

record Thrown =
  thrown_message :: "string option"
  thrown_statusCode :: "nat option"
  thrown_causeStatusCode :: "nat option"

datatype 'a outcome = Threw Thrown | Returned 'a

datatype error_code =
    MISSING_URL | INVALID_URL | INVALID_VIDEO_ID | SIGNATURE_ERROR | VIDEO_UNAVAILABLE
  | AGE_RESTRICTED | VIDEO_NOT_FOUND | RATE_LIMITED | FETCH_ERROR | INTERNAL_ERROR
  | MISSING_PARAMS | FORMAT_NOT_FOUND | NO_URL | WEBP_NOT_SUPPORTED | ACCESS_DENIED
  | DOWNLOAD_FAILED

text \<open>
  A JSON response: \<^verbatim>\<open>{success: false, error, message}\<close> with its status, or
  \<^verbatim>\<open>{success: true, data}\<close> (status 200). The human-readable message is left out.
\<close>

datatype info_response = InfoError error_code nat | InfoOk VideoInfo

definition messageIncludes :: "Thrown \<Rightarrow> string \<Rightarrow> bool" where
  "messageIncludes e p =
     (case thrown_message e of None \<Rightarrow> False | Some m \<Rightarrow> str_includes m p)"

definition isSignatureError :: "Thrown \<Rightarrow> bool" where
  "isSignatureError e =
     (messageIncludes e ''n transform'' \<or> messageIncludes e ''signature''
      \<or> messageIncludes e ''decipher'')"

definition infoServiceError :: "Thrown \<Rightarrow> info_response" where
  "infoServiceError e =
     (if isSignatureError e then InfoError SIGNATURE_ERROR 500
      else if messageIncludes e ''Private video'' \<or> messageIncludes e ''unavailable''
        then InfoError VIDEO_UNAVAILABLE 403
      else if messageIncludes e ''Sign in to confirm your age''
        then InfoError AGE_RESTRICTED 403
      else if messageIncludes e ''Video unavailable'' then InfoError VIDEO_NOT_FOUND 404
      else if thrown_statusCode e = Some 429 \<or> messageIncludes e ''rate limit''
        then InfoError RATE_LIMITED 429
      else InfoError FETCH_ERROR 500)"

definition isWebP :: "VideoFormat \<Rightarrow> bool" where
  "isWebP format = (str_includes (mimeType format) ''webp'' \<or> container format = ''webp'')"

definition hasValidUrl :: "VideoFormat \<Rightarrow> bool" where
  "hasValidUrl format =
     (case url format of
        None \<Rightarrow> False
      | Some u \<Rightarrow> u \<noteq> [] \<and> length u > 0 \<and> startsWith u ''http'')"

definition catalogFormats :: "RawFormat list \<Rightarrow> VideoFormat list" where
  "catalogFormats raw =
     filter (\<lambda>format. \<not> isWebP format \<and> hasValidUrl format) (map parseFormat raw)"

definition bestThumbnail :: "string list \<Rightarrow> string \<Rightarrow> string" where
  "bestThumbnail thumbnails vid =
     orString (if thumbnails = [] then None else Some (last thumbnails))
       (''https://img.youtube.com/vi/'' @ vid @ ''/maxresdefault.jpg'')"

definition buildVideoInfo :: "string \<Rightarrow> YtdlInfo \<Rightarrow> VideoInfo" where
  "buildVideoInfo vid info =
     (let d = parseInt (orString (vd_lengthSeconds (videoDetails info)) ''0'')
      in \<lparr> videoId = vd_videoId (videoDetails info),
           title = vd_title (videoDetails info),
           author = orString (vd_authorName (videoDetails info)) ''Unknown'',
           thumbnail = bestThumbnail (vd_thumbnails (videoDetails info)) vid,
           duration = d,
           durationFormatted = formatDuration d,
           formats = catalogFormats (info_formats info) \<rparr>)"

text \<open>
  \<^verbatim>\<open>GET\<close> of the info route. The first argument is the \<^verbatim>\<open>url\<close> query parameter, the
  second the outcome of the one call of \<^verbatim>\<open>ytdl.getInfo\<close>, read only when the
  validation has passed.
\<close>

definition GET_info :: "string option \<Rightarrow> YtdlInfo outcome \<Rightarrow> info_response" where
  "GET_info urlParam getInfo =
     (case urlParam of
        None \<Rightarrow> InfoError MISSING_URL 400
      | Some u \<Rightarrow>
          if u = [] then InfoError MISSING_URL 400
          else (case extractVideoId u of
                  None \<Rightarrow> InfoError INVALID_URL 400
                | Some vid \<Rightarrow>
                    if \<not> isVideoId vid then InfoError INVALID_VIDEO_ID 400
                    else (case getInfo of
                            Threw e \<Rightarrow> infoServiceError e
                          | Returned info \<Rightarrow> InfoOk (buildVideoInfo vid info))))"

section \<open>Proxy relay (\<^verbatim>\<open>GET /api/download\<close>)\<close>

text \<open>
  The calls the handler makes to its collaborators, in order: the resolution service
  (\<^verbatim>\<open>getInfo\<close>, \<^verbatim>\<open>downloadFromInfo\<close> with the format tag and the request headers it is
  given) and the direct \<^verbatim>\<open>fetch\<close> of a stream address with its request headers.
\<close>

type_synonym headers = "(string \<times> string) list"

datatype upstream_call =
    GetInfo string
  | DownloadFromInfo int headers
  | DirectFetch string headers

text \<open>What the handler reads of the response of the direct \<^verbatim>\<open>fetch\<close>.\<close>

record UpstreamResponse =
  up_status :: nat
  up_statusText :: string
  up_contentType :: "string option"
  up_contentLength :: "string option"
  up_acceptRanges :: "string option"
  up_contentRange :: "string option"

text \<open>
  A response of the relay: a JSON error with its status, or the relayed stream with its
  status and headers (the body is the upstream stream, passed on as it is).
\<close>

datatype dl_response = DlError error_code nat | DlStream nat headers

definition truthy :: "string option \<Rightarrow> bool" where
  "truthy s = (case s of None \<Rightarrow> False | Some v \<Rightarrow> v \<noteq> [])"

definition optHeader :: "string \<Rightarrow> string option \<Rightarrow> headers" where
  "optHeader k v = (case v of None \<Rightarrow> [] | Some s \<Rightarrow> if s = [] then [] else [(k, s)])"

definition orOption :: "string option \<Rightarrow> string option \<Rightarrow> string option" where
  "orOption a b = (if truthy a then a else b)"

definition userAgent :: string where
  "userAgent = ''Mozilla/5.0 (Windows NT 10.0; Win64; x64) AppleWebKit/537.36 (KHTML, like Gecko) Chrome/131.0.0.0 Safari/537.36''"

definition streamRequestHeaders :: headers where
  "streamRequestHeaders =
     [(''User-Agent'', userAgent),
      (''Referer'', ''https://www.youtube.com/''),
      (''Origin'', ''https://www.youtube.com''),
      (''Accept'', ''*/*''),
      (''Accept-Language'', ''en-US,en;q=0.9'')]"

definition fetchRequestHeaders :: "string option \<Rightarrow> headers" where
  "fetchRequestHeaders rangeHeader =
     streamRequestHeaders @ [(''Accept-Encoding'', ''identity'')] @ optHeader ''Range'' rangeHeader"

definition baseResponseHeaders :: "string \<Rightarrow> string \<Rightarrow> headers" where
  "baseResponseHeaders contentType acceptRanges =
     [(''Content-Type'', contentType),
      (''Accept-Ranges'', acceptRanges),
      (''Access-Control-Allow-Origin'', ''*''),
      (''Access-Control-Allow-Methods'', ''GET, HEAD, OPTIONS''),
      (''Access-Control-Allow-Headers'', ''Range''),
      (''Access-Control-Expose-Headers'', ''Content-Length, Content-Range, Accept-Ranges'')]"

definition rawIsWebP :: "RawFormat \<Rightarrow> bool" where
  "rawIsWebP format =
     ((case raw_mimeType format of None \<Rightarrow> False | Some m \<Rightarrow> str_includes m ''webp'')
      \<or> raw_container format = Some ''webp'')"

text \<open>The response of the primary path, once \<^verbatim>\<open>downloadFromInfo\<close> has returned its stream.\<close>

definition primaryResponse :: "RawFormat \<Rightarrow> string option \<Rightarrow> dl_response" where
  "primaryResponse format rangeHeader =
     (let contentType = orString (raw_mimeType format) ''video/mp4'';
          responseHeaders = baseResponseHeaders contentType ''bytes''
            @ optHeader ''Content-Length'' (raw_contentLength format)
      in if truthy rangeHeader then DlStream 206 (responseHeaders @ optHeader ''Content-Range'' rangeHeader)
         else DlStream 200 responseHeaders)"

definition is403 :: "Thrown \<Rightarrow> bool" where
  "is403 e =
     (thrown_statusCode e = Some 403 \<or> thrown_causeStatusCode e = Some 403
      \<or> messageIncludes e ''403'')"

text \<open>The response of the direct-fetch fallback, from the upstream response.\<close>

definition fallbackResponse :: "RawFormat \<Rightarrow> UpstreamResponse \<Rightarrow> dl_response" where
  "fallbackResponse format response =
     (if \<not> (200 \<le> up_status response \<and> up_status response \<le> 299)
      then DlError FETCH_ERROR (up_status response)
      else
        (let contentType =
               orString (up_contentType response) (orString (raw_mimeType format) ''video/mp4'');
             contentLength = orOption (up_contentLength response) (raw_contentLength format);
             acceptRanges = orString (up_acceptRanges response) ''bytes'';
             contentRange = up_contentRange response;
             responseHeaders = baseResponseHeaders contentType acceptRanges
               @ optHeader ''Content-Length'' contentLength
               @ optHeader ''Content-Range'' contentRange;
             status = (if up_status response = 206 then 206 else 200)
         in DlStream status responseHeaders))"

text \<open>
  \<^verbatim>\<open>GET\<close> of the download route: the query parameters \<^verbatim>\<open>videoId\<close> and \<^verbatim>\<open>itag\<close>, the
  inbound \<^verbatim>\<open>Range\<close> header, and the outcomes of the three collaborator calls, each read
  only when the handler reaches that call. The result is the list of calls made and the
  response. The address of the format is known to be non-empty when the fallback is
  reached, so its test \<^verbatim>\<open>if (format.url)\<close> passes and the \<^verbatim>\<open>DOWNLOAD_FAILED\<close> answer
  after it is never given; a \<^verbatim>\<open>fetch\<close> that throws is caught by the outer handler
  (\<^verbatim>\<open>INTERNAL_ERROR\<close>).
\<close>

definition GET_download ::
  "string option \<Rightarrow> string option \<Rightarrow> string option \<Rightarrow> YtdlInfo outcome \<Rightarrow> unit outcome
     \<Rightarrow> UpstreamResponse outcome \<Rightarrow> upstream_call list \<times> dl_response" where
  "GET_download videoIdParam itagParam rangeHeader getInfo downloadFromInfo fetched =
     (case (videoIdParam, itagParam) of
        (Some vid, Some itagText) \<Rightarrow>
          if vid = [] \<or> itagText = [] then ([], DlError MISSING_PARAMS 400)
          else
            (case getInfo of
               Threw e \<Rightarrow>
                 ([GetInfo vid],
                  if isSignatureError e then DlError SIGNATURE_ERROR 500
                  else DlError FETCH_ERROR 500)
             | Returned info \<Rightarrow>
                 (case List.find (\<lambda>f. Some (raw_itag f) = parseInt itagText) (info_formats info) of
                    None \<Rightarrow> ([GetInfo vid], DlError FORMAT_NOT_FOUND 404)
                  | Some format \<Rightarrow>
                      (case raw_url format of
                         None \<Rightarrow> ([GetInfo vid], DlError NO_URL 404)
                       | Some u \<Rightarrow>
                           if u = [] then ([GetInfo vid], DlError NO_URL 404)
                           else if rawIsWebP format
                             then ([GetInfo vid], DlError WEBP_NOT_SUPPORTED 400)
                           else
                             (case downloadFromInfo of
                                Returned _ \<Rightarrow>
                                  ([GetInfo vid,
                                    DownloadFromInfo (raw_itag format) streamRequestHeaders],
                                   primaryResponse format rangeHeader)
                              | Threw streamError \<Rightarrow>
                                  if is403 streamError
                                  then ([GetInfo vid,
                                         DownloadFromInfo (raw_itag format) streamRequestHeaders],
                                        DlError ACCESS_DENIED 403)
                                  else
                                    ([GetInfo vid,
                                      DownloadFromInfo (raw_itag format) streamRequestHeaders,
                                      DirectFetch u (fetchRequestHeaders rangeHeader)],
                                     (case fetched of
                                        Threw _ \<Rightarrow> DlError INTERNAL_ERROR 500
                                      | Returned response \<Rightarrow>
                                          fallbackResponse format response))))))
      | _ \<Rightarrow> ([], DlError MISSING_PARAMS 400))"

section \<open>Downloader component (src/app/components/Downloader.tsx)\<close>

subsection \<open>State and effects\<close>

datatype stage = idle | fetching | downloading | merging | complete

record DownloadProgress =
  stage :: stage
  progress :: nat
  message :: "string option"

type_synonym blob = string

text \<open>A thrown value: its \<^verbatim>\<open>name\<close> and its \<^verbatim>\<open>message\<close>.\<close>

datatype js_error = JsError (err_name: string) (err_message: string)

datatype 'a promise = Resolved 'a | Rejected js_error | Pending

text \<open>
  What the component does to the outside, in order: the requests it sends, the saves it
  triggers through an anchor element, and the calls to the codec engine.
\<close>

datatype effect =
    XhrSend "string option"
  | XhrAbort
  | ProxyFetch string int
  | AnchorClick "string option" string
  | EngineLoad
  | WriteFile string blob
  | Exec "string list"
  | ReadFile string
  | DeleteFile string
  | SaveBlob blob string

text \<open>
  The state of the component that the download reads and writes: the \<^verbatim>\<open>progress\<close> and
  \<^verbatim>\<open>error\<close> state variables, whether \<^verbatim>\<open>ffmpegRef.current\<close> and
  \<^verbatim>\<open>abortControllerRef.current\<close> are set, and the effects so far.
\<close>

record DownloaderState =
  st_progress :: DownloadProgress
  st_error :: "string option"
  st_ffmpegRef :: bool
  st_abortController :: bool
  st_effects :: "effect list"

definition setProgress :: "stage \<Rightarrow> nat \<Rightarrow> string option \<Rightarrow> DownloaderState \<Rightarrow> DownloaderState" where
  "setProgress s p m st = st\<lparr>st_progress := \<lparr>stage = s, progress = p, message = m\<rparr>\<rparr>"

definition setError :: "string option \<Rightarrow> DownloaderState \<Rightarrow> DownloaderState" where
  "setError e st = st\<lparr>st_error := e\<rparr>"

definition addEffect :: "effect \<Rightarrow> DownloaderState \<Rightarrow> DownloaderState" where
  "addEffect e st = st\<lparr>st_effects := st_effects st @ [e]\<rparr>"

subsection \<open>\<^verbatim>\<open>cancelDownload\<close>\<close>

definition cancelDownload :: "DownloaderState \<Rightarrow> DownloaderState" where
  "cancelDownload st =
     setProgress idle 0 None
       (if st_abortController st then st\<lparr>st_abortController := False\<rparr> else st)"

subsection \<open>\<^verbatim>\<open>downloadBlob\<close>\<close>

text \<open>
  The event that settles a transfer. \<^term>\<open>XhrAborted\<close> and \<^term>\<open>FetchAborted\<close> stand
  for the \<^verbatim>\<open>abort\<close> event of the signal while the request is in flight; the only
  code that aborts the controller is \<^verbatim>\<open>cancelDownload\<close>, so its writes to the state
  come with the event, before the rejection is handled.
\<close>

datatype xhr_event = XhrLoad nat string blob | XhrError | XhrAborted

datatype fetch_event = FetchResponse nat string blob | FetchFailed js_error | FetchAborted

definition abortError :: js_error where
  "abortError = JsError ''AbortError'' ''Aborted''"

definition statusSuffix :: "string \<Rightarrow> nat \<Rightarrow> string" where
  "statusSuffix statusText status = statusText @ '' ('' @ string_of_nat status @ '')''"

text \<open>The fallback to the server proxy, shared by \<^verbatim>\<open>onload\<close> (status 0) and \<^verbatim>\<open>onerror\<close>.\<close>

definition proxyFallback ::
  "string \<Rightarrow> bool \<Rightarrow> string option \<Rightarrow> int option \<Rightarrow> fetch_event \<Rightarrow> DownloaderState
     \<Rightarrow> DownloaderState \<times> blob promise" where
  "proxyFallback kind signal vid tag ev st =
     (case (vid, tag) of
        (Some v, Some t) \<Rightarrow>
          if v = [] \<or> t = 0
          then (st, Rejected (JsError ''Error''
                  (kind @ '': Video ID and itag are required for server proxy fallback.'')))
          else
            (let st1 = addEffect (ProxyFetch v t) st
             in case ev of
                  FetchResponse status statusText body \<Rightarrow>
                    if \<not> (200 \<le> status \<and> status \<le> 299)
                    then (st1, Rejected (JsError ''Error''
                            (''Server proxy failed: '' @ statusSuffix statusText status)))
                    else (st1, Resolved body)
                | FetchFailed e \<Rightarrow> (st1, Rejected e)
                | FetchAborted \<Rightarrow>
                    if signal then (cancelDownload (addEffect XhrAbort st1), Rejected abortError)
                    else (st1, Pending))
      | _ \<Rightarrow> (st, Rejected (JsError ''Error''
                 (kind @ '': Video ID and itag are required for server proxy fallback.''))))"

definition downloadBlob ::
  "string option \<Rightarrow> bool \<Rightarrow> string option \<Rightarrow> int option \<Rightarrow> xhr_event \<Rightarrow> fetch_event
     \<Rightarrow> DownloaderState \<Rightarrow> DownloaderState \<times> blob promise" where
  "downloadBlob address signal vid tag xhr ev st =
     (let st1 = addEffect (XhrSend address) st
      in case xhr of
           XhrLoad status statusText body \<Rightarrow>
             if 200 \<le> status \<and> status < 300 then (st1, Resolved body)
             else if status = 0 then proxyFallback ''CORS error'' signal vid tag ev st1
             else (st1, Rejected (JsError ''Error''
                     (''Failed to download: '' @ statusSuffix statusText status)))
         | XhrError \<Rightarrow> proxyFallback ''Network error'' signal vid tag ev st1
         | XhrAborted \<Rightarrow>
             if signal then (cancelDownload (addEffect XhrAbort st1), Rejected abortError)
             else (st1, Pending))"

subsection \<open>\<^verbatim>\<open>initFFmpeg\<close> and \<^verbatim>\<open>mergeWithFFmpeg\<close>\<close>

text \<open>
  The codec engine is an external collaborator: what each of its calls answers during
  one merge is a parameter (\<^term>\<open>None\<close> or \<^term>\<open>Inr\<close>: the call returns; an error: it
  throws).
\<close>

record engine =
  load_result :: "js_error option"
  writeFile_result :: "string \<Rightarrow> js_error option"
  exec_result :: "js_error + int"
  readFile_result :: "js_error + blob"
  deleteFile_result :: "string \<Rightarrow> js_error option"

definition initFFmpeg :: "engine \<Rightarrow> DownloaderState \<Rightarrow> DownloaderState \<times> js_error option" where
  "initFFmpeg eng st =
     (if st_ffmpegRef st then (st, None)
      else
        (let st1 = setProgress merging 0 (Some ''Loading FFmpeg...'') st;
             st2 = addEffect EngineLoad (st1\<lparr>st_ffmpegRef := True\<rparr>)
         in (st2, load_result eng)))"

definition mergeArgs :: "string list" where
  "mergeArgs =
     [''-i'', ''video.mp4'', ''-i'', ''audio.mp4'', ''-c:v'', ''copy'', ''-c:a'', ''aac'',
      ''-strict'', ''experimental'', ''-shortest'', ''output.mp4'']"

text \<open>The three deletions and what follows them (lines 206 to 221).\<close>

definition cleanUpAndSave :: "engine \<Rightarrow> blob \<Rightarrow> string \<Rightarrow> DownloaderState
     \<Rightarrow> DownloaderState \<times> js_error option" where
  "cleanUpAndSave eng body outputFilename st =
     (let st1 = addEffect (DeleteFile ''video.mp4'') st
      in case deleteFile_result eng ''video.mp4'' of
           Some e \<Rightarrow> (st1, Some e)
         | None \<Rightarrow>
             (let st2 = addEffect (DeleteFile ''audio.mp4'') st1
              in case deleteFile_result eng ''audio.mp4'' of
                   Some e \<Rightarrow> (st2, Some e)
                 | None \<Rightarrow>
                     (let st3 = addEffect (DeleteFile ''output.mp4'') st2
                      in case deleteFile_result eng ''output.mp4'' of
                           Some e \<Rightarrow> (st3, Some e)
                         | None \<Rightarrow>
                             (setProgress complete 100 (Some ''Download complete!'')
                                (addEffect (SaveBlob body outputFilename) st3), None))))"

text \<open>
  \<^verbatim>\<open>mergeWithFFmpeg\<close>: the state after it, and the error it throws
  (\<^term>\<open>None\<close>: it returns).
\<close>

definition mergeWithFFmpeg :: "engine \<Rightarrow> blob \<Rightarrow> blob \<Rightarrow> string \<Rightarrow> DownloaderState
     \<Rightarrow> DownloaderState \<times> js_error option" where
  "mergeWithFFmpeg eng videoBlob audioBlob outputFilename st =
     (case initFFmpeg eng st of
        (st0, Some e) \<Rightarrow> (st0, Some e)
      | (st0, None) \<Rightarrow>
          (let st1 = addEffect (WriteFile ''video.mp4'' videoBlob)
                       (setProgress merging 10 (Some ''Preparing files...'') st0)
           in case writeFile_result eng ''video.mp4'' of
                Some e \<Rightarrow> (st1, Some e)
              | None \<Rightarrow>
                  (let st2 = addEffect (WriteFile ''audio.mp4'' audioBlob)
                               (setProgress merging 30 (Some ''Processing video...'') st1)
                   in case writeFile_result eng ''audio.mp4'' of
                        Some e \<Rightarrow> (st2, Some e)
                      | None \<Rightarrow>
                          (let st3 = addEffect (Exec mergeArgs)
                                       (setProgress merging 50 (Some ''Merging streams...'') st2)
                           in case exec_result eng of
                                Inl e \<Rightarrow> (st3, Some e)
                              | Inr exitCode \<Rightarrow>
                                  (let st4 = addEffect (ReadFile ''output.mp4'')
                                               (setProgress merging 90 (Some ''Finalizing...'') st3)
                                   in case readFile_result eng of
                                        Inl e \<Rightarrow> (st4, Some e)
                                      | Inr body \<Rightarrow>
                                          cleanUpAndSave eng body outputFilename st4)))))"

subsection \<open>\<^verbatim>\<open>downloadVideo\<close>\<close>

definition isAlnum :: "char \<Rightarrow> bool" where
  "isAlnum c = (is_lower c \<or> is_upper c \<or> is_digit c)"

text \<open>\<^verbatim>\<open>title.replace(/[^a-z0-9]/gi, '_').toLowerCase()\<close>\<close>

definition sanitizeTitle :: "string \<Rightarrow> string" where
  "sanitizeTitle t = toLowerCase (map (\<lambda>c. if isAlnum c then c else CHR ''_'') t)"

definition downloadFilename :: "string \<Rightarrow> string \<Rightarrow> string" where
  "downloadFilename t ext = sanitizeTitle t @ ''.'' @ ext"

definition tipPrefix :: string where
  "tipPrefix = [CHR 0x0A, CHR 0x0A, CHR 0xF0, CHR 0x9F, CHR 0x92, CHR 0xA1] @ '' Tip: ''"

definition genericFailure :: string where
  "genericFailure = ''Failed to download video. Please try again.''"

definition failureMessage :: "VideoFormat \<Rightarrow> js_error \<Rightarrow> string" where
  "failureMessage selectedFormat err =
     (let errorMsg = (if err_message err = [] then genericFailure else err_message err)
      in if str_includes errorMsg ''403'' \<or> str_includes errorMsg ''ACCESS_DENIED''
            \<or> str_includes errorMsg ''forbidden''
         then (if \<not> hasAudio selectedFormat
               then errorMsg @ tipPrefix @ ''YouTube is blocking server-side downloads for formats requiring merging. Please select a combined format (video+audio) which uses native browser download and works reliably.''
               else errorMsg @ tipPrefix @ ''YouTube may be blocking this request. Try selecting a different format or wait a few minutes.'')
         else if str_includes errorMsg ''SIGNATURE_ERROR'' \<or> str_includes errorMsg ''n transform''
            \<or> str_includes errorMsg ''decipher''
         then errorMsg @ tipPrefix @ ''YouTube has updated their security. The ytdl-core library may need an update. Try selecting a combined format (video+audio) which works more reliably.''
         else if str_includes errorMsg ''NO_URL'' \<or> str_includes errorMsg ''FORMAT_NOT_FOUND''
         then errorMsg @ tipPrefix @ ''This format is not available. Please select a different format. Combined formats (video+audio) are usually more reliable.''
         else errorMsg)"

text \<open>The \<^verbatim>\<open>catch\<close> block of \<^verbatim>\<open>downloadVideo\<close>.\<close>

definition catchDownload :: "VideoFormat \<Rightarrow> js_error \<Rightarrow> DownloaderState \<Rightarrow> DownloaderState" where
  "catchDownload selectedFormat err st =
     setProgress idle 0 None
       (if err_name err = ''AbortError'' then setError (Some ''Download cancelled'') st
        else setError (Some (failureMessage selectedFormat err)) st)"

definition nativeDownload :: "VideoFormat \<Rightarrow> string \<Rightarrow> DownloaderState \<Rightarrow> DownloaderState" where
  "nativeDownload format filename st =
     setProgress complete 100 (Some ''Download started! Check your downloads folder.'')
       (addEffect (AnchorClick (url format) filename)
          (setProgress downloading 0 (Some ''Starting download...'') st))"

text \<open>The branch that fetches the video and the audio stream and merges them.\<close>

definition mergeDownload ::
  "VideoFormat \<Rightarrow> VideoInfo \<Rightarrow> string \<Rightarrow> xhr_event \<times> fetch_event \<Rightarrow> xhr_event \<times> fetch_event
     \<Rightarrow> engine \<Rightarrow> DownloaderState \<Rightarrow> DownloaderState" where
  "mergeDownload format info filename videoEvents audioEvents eng st =
     (let st1 = setProgress downloading 0 (Some ''Downloading video stream...'') st;
          audioFormats = filter isAudioOnly (formats info)
      in if audioFormats = []
         then catchDownload format (JsError ''Error'' ''No audio stream available for merging'') st1
         else
           (case sort_by cmpBitrate audioFormats of
              [] \<Rightarrow> catchDownload format
                    (JsError ''TypeError'' ''Cannot read properties of undefined (reading url)'') st1
            | bestAudio # _ \<Rightarrow>
                (case downloadBlob (url format) (st_abortController st1) (Some (videoId info))
                        (Some (itag format)) (fst videoEvents) (snd videoEvents) st1 of
                   (st2, Pending) \<Rightarrow> st2
                 | (st2, Rejected e) \<Rightarrow> catchDownload format e st2
                 | (st2, Resolved videoBlob) \<Rightarrow>
                     (let st3 = setProgress downloading 50 (Some ''Downloading audio stream...'') st2
                      in case downloadBlob (url bestAudio) (st_abortController st3)
                                (Some (videoId info)) (Some (itag bestAudio))
                                (fst audioEvents) (snd audioEvents) st3 of
                           (st4, Pending) \<Rightarrow> st4
                         | (st4, Rejected e) \<Rightarrow> catchDownload format e st4
                         | (st4, Resolved audioBlob) \<Rightarrow>
                             (case mergeWithFFmpeg eng videoBlob audioBlob filename st4 of
                                (st5, Some e) \<Rightarrow> catchDownload format e st5
                              | (st5, None) \<Rightarrow> st5)))))"

text \<open>
  \<^verbatim>\<open>downloadVideo\<close>: the selected format and the video info of the component, the
  events that settle the video and the audio transfer, the answers of the codec engine,
  and the state before; the result is the state once the download has settled. The
  progress events of a running transfer only overwrite the \<^verbatim>\<open>progress\<close> state
  until the next \<^verbatim>\<open>setProgress\<close> and are not part of the model.
\<close>

definition downloadVideo ::
  "VideoFormat option \<Rightarrow> VideoInfo option \<Rightarrow> xhr_event \<times> fetch_event \<Rightarrow> xhr_event \<times> fetch_event
     \<Rightarrow> engine \<Rightarrow> DownloaderState \<Rightarrow> DownloaderState" where
  "downloadVideo selectedFormat videoInfo videoEvents audioEvents eng st =
     (case (selectedFormat, videoInfo) of
        (Some format, Some info) \<Rightarrow>
          (let st1 = (setProgress downloading 0 (Some ''Starting download...'') (setError None st))
                       \<lparr>st_abortController := True\<rparr>;
               filename = downloadFilename (title info) (container format)
           in if hasVideo format \<and> hasAudio format then nativeDownload format filename st1
              else if hasVideo format \<and> \<not> hasAudio format
                then mergeDownload format info filename videoEvents audioEvents eng st1
              else if hasAudio format \<and> \<not> hasVideo format
                then nativeDownload format filename st1
              else st1)
      | _ \<Rightarrow> setError (Some ''Please select a quality/format'') st)"

text \<open>The status of a response of the relay, and the value of one of its headers.\<close>

definition responseStatus :: "dl_response \<Rightarrow> nat" where
  "responseStatus r = (case r of DlError c s \<Rightarrow> s | DlStream s hs \<Rightarrow> s)"

definition responseHeader :: "dl_response \<Rightarrow> string \<Rightarrow> string option" where
  "responseHeader r k = (case r of DlError c s \<Rightarrow> None | DlStream s hs \<Rightarrow> map_of hs k)"

text \<open>The request headers of the direct fetch, if the handler made one.\<close>

fun directFetchHeaders :: "upstream_call list \<Rightarrow> headers option" where
  "directFetchHeaders [] = None"
| "directFetchHeaders (DirectFetch u hs # cs) = Some hs"
| "directFetchHeaders (c # cs) = directFetchHeaders cs"

section \<open>The selector as the specification words it (section 4.3)\<close>

text \<open>
  Step 1: among the descriptors with audio and no video, the one of highest bitrate
  (a missing bitrate counting as 0); the first such one in catalog order.
\<close>

definition spec_bestAudio :: "VideoFormat list \<Rightarrow> VideoFormat option" where
  "spec_bestAudio fs =
     List.find (\<lambda>a. \<forall>b \<in> set (filter isAudioOnly fs). or0 (bitrate b) \<le> or0 (bitrate a))
       (filter isAudioOnly fs)"

text \<open>
  Step 2: the descriptors with video, sorted descending by height, then descending by
  bitrate (missing values counting as 0): a stable sort on the negated pair, ordered
  lexicographically.
\<close>

definition heightBitrateKey :: "VideoFormat \<Rightarrow> int \<times> int" where
  "heightBitrateKey f = (- or0 (height f), - or0 (bitrate f))"

text \<open>The dedup key (height-or-0, hasAudio), and first-seen deduplication by a key.\<close>

definition dedupKey :: "VideoFormat \<Rightarrow> int \<times> bool" where
  "dedupKey f = (or0 (height f), hasAudio f)"

fun firstSeen :: "('a \<Rightarrow> 'k) \<Rightarrow> 'a list \<Rightarrow> 'a list" where
  "firstSeen key [] = []"
| "firstSeen key (x # xs) = x # firstSeen key (filter (\<lambda>y. key y \<noteq> key x) xs)"

definition spec_videoDescriptors :: "VideoFormat list \<Rightarrow> VideoFormat list" where
  "spec_videoDescriptors fs =
     firstSeen dedupKey (sort_key heightBitrateKey (filter hasVideo fs))"

text \<open>
  The label as the claim words it: the quality label, or the height followed by
  \<^verbatim>\<open>p\<close>, then the upper-cased container, then the suffix, whose dash is U+2014
  (here its UTF-8 bytes).
\<close>

definition emDash :: string where
  "emDash = [CHR 0xE2, CHR 0x80, CHR 0x94]"

definition claimedLabel :: "VideoFormat \<Rightarrow> string" where
  "claimedLabel f =
     (case qualityLabel f of
        Some l \<Rightarrow> l
      | None \<Rightarrow> string_of_int (or0 (height f)) @ ''p'')
     @ '' '' @ toUpperCase (container f)
     @ (if hasAudio f then '' (Video + Audio)''
        else '' (Video Only '' @ emDash @ '' will merge with audio)'')"

text \<open>
  The label as amended: an empty quality label counts as missing, a missing or zero
  height is written \<^verbatim>\<open>?\<close>, and the dash of the suffix is the ASCII hyphen.
\<close>

definition amendedLabel :: "VideoFormat \<Rightarrow> string" where
  "amendedLabel f =
     (if qualityLabel f = None \<or> qualityLabel f = Some []
      then (if or0 (height f) = 0 then ''?'' else string_of_int (or0 (height f))) @ ''p''
      else the (qualityLabel f))
     @ '' '' @ toUpperCase (container f)
     @ (if hasAudio f then '' (Video + Audio)''
        else '' (Video Only - will merge with audio)'')"

text \<open>
  The result: the audio option if there is one, then one option for each descriptor of
  step 2, labelled by \<open>lbl\<close>, its merge flag the negation of \<open>hasAudio\<close>.
\<close>

definition spec_qualityOptions :: "(VideoFormat \<Rightarrow> string) \<Rightarrow> VideoFormat list \<Rightarrow> QualityOption list" where
  "spec_qualityOptions lbl fs =
     (case spec_bestAudio fs of None \<Rightarrow> [] | Some a \<Rightarrow> [audioOption a])
     @ map (\<lambda>f. \<lparr> opt_value = ''video-'' @ string_of_int (itag f), opt_label = lbl f,
                   opt_format = f, requiresMerge = (\<not> hasAudio f), opt_group = Video \<rparr>)
         (spec_videoDescriptors fs)"

section \<open>Example inputs\<close>

definition exampleFormat :: "int \<Rightarrow> bool \<Rightarrow> bool \<Rightarrow> int option \<Rightarrow> int option \<Rightarrow> VideoFormat" where
  "exampleFormat tag v a h b =
     \<lparr> itag = tag, url = Some ''https://example.com/stream'', mimeType = ''video/mp4'',
       quality = ''medium'', qualityLabel = None, container = ''mp4'', hasVideo = v,
       hasAudio = a, videoCodec = None, audioCodec = None, width = None, height = h,
       fps = None, bitrate = b, contentLength = None \<rparr>"

text \<open>
  Two audio-only descriptors (bitrates 128000 and 64000) and three video descriptors:
  1080p with audio, 1080p without audio, 720p with audio.
\<close>

definition exampleCatalog :: "VideoFormat list" where
  "exampleCatalog =
     [exampleFormat 140 False True None (Some 128000),
      exampleFormat 139 False True None (Some 64000),
      exampleFormat 37 True True (Some 1080) (Some 5000000),
      exampleFormat 137 True False (Some 1080) (Some 4500000),
      exampleFormat 22 True True (Some 720) (Some 2000000)]"

text \<open>
  A video-only 1080p descriptor and a video descriptor with audio that has neither a
  quality label nor a height.
\<close>

definition labelCatalog :: "VideoFormat list" where
  "labelCatalog =
     [exampleFormat 137 True False (Some 1080) (Some 4500000),
      exampleFormat 18 True True None None]"

text \<open>A call of the resolution service that throws, with no message and no status.\<close>

definition serviceDown :: "YtdlInfo outcome" where
  "serviceDown =
     Threw \<lparr> thrown_message = None, thrown_statusCode = None, thrown_causeStatusCode = None \<rparr>"

text \<open>
  A format object of the resolution service with the given tag, address, MIME type,
  container and the two flags, and a service answer made of such formats.
\<close>

definition exampleRaw ::
  "int \<Rightarrow> string option \<Rightarrow> string option \<Rightarrow> string option \<Rightarrow> bool option \<Rightarrow> bool option
     \<Rightarrow> RawFormat" where
  "exampleRaw tag address mime cont v a =
     \<lparr> raw_itag = tag, raw_url = address, raw_mimeType = mime, raw_quality = Some ''medium'',
       raw_qualityLabel = None, raw_container = cont, raw_hasVideo = v, raw_hasAudio = a,
       raw_videoCodec = None, raw_audioCodec = None, raw_width = None, raw_height = None,
       raw_fps = None, raw_bitrate = None, raw_contentLength = None \<rparr>"

definition exampleInfo :: "RawFormat list \<Rightarrow> YtdlInfo" where
  "exampleInfo fs =
     \<lparr> info_formats = fs,
       videoDetails = \<lparr> vd_videoId = ''dQw4w9WgXcQ'', vd_title = ''Example, video'',
         vd_authorName = None, vd_thumbnails = [], vd_lengthSeconds = Some ''61'' \<rparr> \<rparr>"

text \<open>
  A WebP format, a format with an empty address, a format without address, a format
  with neither video nor audio, and a muxed MP4 format.
\<close>

definition exampleRawFormats :: "RawFormat list" where
  "exampleRawFormats =
     [exampleRaw 1 (Some ''https://example.com/1'') (Some ''image/webp'') (Some ''webp'')
        (Some True) (Some False),
      exampleRaw 2 (Some []) (Some ''video/mp4'') (Some ''mp4'') (Some True) (Some True),
      exampleRaw 3 None (Some ''video/mp4'') (Some ''mp4'') (Some True) (Some True),
      exampleRaw 4 (Some ''https://example.com/4'') (Some ''video/mp4'') (Some ''mp4'')
        (Some False) None,
      exampleRaw 18 (Some ''https://example.com/18'') (Some ''video/mp4'') (Some ''mp4'')
        (Some True) (Some True)]"

section \<open>The file name as the specification words it (section 4.4)\<close>

text \<open>
  The title lower-cased, every maximal run of non-alphanumeric characters collapsed to
  one underscore, then a dot and the container extension.
\<close>

function collapseRuns :: "string \<Rightarrow> string" where
  "collapseRuns [] = []"
| "collapseRuns (c # cs) =
     (if isAlnum c then lower_char c # collapseRuns cs
      else CHR ''_'' # collapseRuns (dropWhile (\<lambda>d. \<not> isAlnum d) cs))"
  by pat_completeness auto
termination
  by (relation "measure length") (auto simp: length_dropWhile_le less_Suc_eq_le)

definition claimedFilename :: "string \<Rightarrow> string \<Rightarrow> string" where
  "claimedFilename t ext = collapseRuns t @ ''.'' @ ext"

text \<open>The component before a download, and a video info over the example catalog.\<close>

definition initialState :: DownloaderState where
  "initialState =
     \<lparr> st_progress = \<lparr> stage = idle, progress = 0, message = None \<rparr>, st_error = None,
       st_ffmpegRef = False, st_abortController = False, st_effects = [] \<rparr>"

definition exampleVideoInfo :: VideoInfo where
  "exampleVideoInfo =
     \<lparr> videoId = ''dQw4w9WgXcQ'', title = ''a, b'', author = ''Unknown'',
       thumbnail = ''https://img.youtube.com/vi/dQw4w9WgXcQ/maxresdefault.jpg'',
       duration = Some 61, durationFormatted = ''1:01'', formats = exampleCatalog \<rparr>"

text \<open>An engine whose every call returns, and one whose combine step throws.\<close>

definition okEngine :: engine where
  "okEngine =
     \<lparr> load_result = None, writeFile_result = (\<lambda>name. None), exec_result = Inr 0,
       readFile_result = Inr ''merged'', deleteFile_result = (\<lambda>name. None) \<rparr>"

definition conversionFailed :: js_error where
  "conversionFailed = JsError ''Error'' ''Conversion failed''"

definition failingEngine :: engine where
  "failingEngine = okEngine \<lparr> exec_result := Inl conversionFailed \<rparr>"

text \<open>An engine whose combine step returns the exit code 1 and leaves an output.\<close>

definition exitCodeEngine :: engine where
  "exitCodeEngine = okEngine \<lparr> exec_result := Inr 1 \<rparr>"

text \<open>
  A service answer with one muxed format (tag 18), a failure of \<^verbatim>\<open>downloadFromInfo\<close>
  that is not an access denial, and an upstream that answers the direct fetch with
  status 200 and no \<^verbatim>\<open>Content-Range\<close>.
\<close>

definition muxedRaw :: RawFormat where
  "muxedRaw =
     exampleRaw 18 (Some ''https://example.com/18'') (Some ''video/mp4'') (Some ''mp4'')
       (Some True) (Some True)"

definition muxedInfo :: YtdlInfo where
  "muxedInfo = exampleInfo [muxedRaw]"

definition socketError :: Thrown where
  "socketError =
     \<lparr> thrown_message = Some ''socket hang up'', thrown_statusCode = None,
       thrown_causeStatusCode = None \<rparr>"

definition streamFailure :: "unit outcome" where
  "streamFailure = Threw socketError"

definition upstreamOk :: UpstreamResponse where
  "upstreamOk =
     \<lparr> up_status = 200, up_statusText = ''OK'', up_contentType = Some ''video/mp4'',
       up_contentLength = Some ''1000'', up_acceptRanges = Some ''bytes'',
       up_contentRange = None \<rparr>"

definition upstreamPartial :: UpstreamResponse where
  "upstreamPartial =
     upstreamOk \<lparr> up_status := 206, up_statusText := ''Partial Content'',
                  up_contentLength := Some ''100'',
                  up_contentRange := Some ''bytes 0-99/1000'' \<rparr>"

section \<open>Decimal rendering\<close>

lemma digit_char_inj:
  assumes "a < 10" and "b < 10" and "digit_char a = digit_char b"
  shows "a = b"
proof -
  have "(of_char (digit_char a) :: nat) = of_char (digit_char b)"
    using assms(3) by simp
  then have "(48 + a) mod 256 = (48 + b) mod 256"
    by (simp add: digit_char_def)
  with assms(1,2) show ?thesis by simp
qed

lemma string_of_nat_nonempty: "string_of_nat n \<noteq> []"
  by (subst string_of_nat.simps) simp

lemma string_of_nat_inj: "string_of_nat n = string_of_nat m \<Longrightarrow> n = m"
proof (induction n arbitrary: m rule: string_of_nat.induct)
  case (1 n)
  show ?case
  proof (cases "n < 10")
    case True
    then have n1: "string_of_nat n = [digit_char n]" by (subst string_of_nat.simps) simp
    show ?thesis
    proof (cases "m < 10")
      case True
      then have "string_of_nat m = [digit_char m]" by (subst string_of_nat.simps) simp
      with n1 "1.prems" have "digit_char n = digit_char m" by simp
      with \<open>n < 10\<close> \<open>m < 10\<close> show ?thesis by (rule digit_char_inj)
    next
      case False
      then have "string_of_nat m = string_of_nat (m div 10) @ [digit_char (m mod 10)]"
        by (subst string_of_nat.simps) simp
      with n1 "1.prems" have "string_of_nat (m div 10) = []" by simp
      then show ?thesis by (simp add: string_of_nat_nonempty)
    qed
  next
    case False
    then have n1: "string_of_nat n = string_of_nat (n div 10) @ [digit_char (n mod 10)]"
      by (subst string_of_nat.simps) simp
    show ?thesis
    proof (cases "m < 10")
      case True
      then have "string_of_nat m = [digit_char m]" by (subst string_of_nat.simps) simp
      with n1 "1.prems" have "string_of_nat (n div 10) = []" by simp
      then show ?thesis by (simp add: string_of_nat_nonempty)
    next
      case m: False
      then have "string_of_nat m = string_of_nat (m div 10) @ [digit_char (m mod 10)]"
        by (subst string_of_nat.simps) simp
      with n1 "1.prems" have a: "string_of_nat (n div 10) = string_of_nat (m div 10)"
        and b: "digit_char (n mod 10) = digit_char (m mod 10)" by simp_all
      from "1.IH"[OF False a] have "n div 10 = m div 10" .
      moreover from b have "n mod 10 = m mod 10" by (intro digit_char_inj) simp_all
      ultimately show ?thesis by (metis div_mult_mod_eq)
    qed
  qed
qed

lemma string_of_int_1080: "string_of_int 1080 = ''1080''"
  by code_simp

lemma string_of_int_720: "string_of_int 720 = ''720''"
  by code_simp

lemma formatDuration_examples:
  "formatDuration (Some 3661) = ''1:01:01'' \<and> formatDuration (Some 61) = ''1:01''"
  by code_simp

section \<open>The selector on the example catalog\<close>

lemma distinct_pair_cases:
  assumes "distinct xs" and "set xs = {a, b}" and "a \<noteq> b"
  shows "xs = [a, b] \<or> xs = [b, a]"
proof -
  from assms have "length xs = 2" by (metis distinct_card card_2_iff)
  then obtain x y where xs: "xs = [x, y]"
    by (auto simp: length_Suc_conv eval_nat_numeral)
  with assms show ?thesis by (auto simp: doubleton_eq_iff)
qed

lemma distinct_triple_cases:
  assumes "distinct xs" and "set xs = {a, b, c}" and "a \<noteq> b" and "a \<noteq> c" and "b \<noteq> c"
  shows "xs = [a, b, c] \<or> xs = [a, c, b] \<or> xs = [b, a, c] \<or> xs = [b, c, a]
       \<or> xs = [c, a, b] \<or> xs = [c, b, a]"
proof -
  from assms have "card (set xs) = 3" by simp
  with assms(1) have "length xs = 3" by (simp add: distinct_card)
  then obtain x y z where xs: "xs = [x, y, z]"
    by (auto simp: length_Suc_conv eval_nat_numeral)
  from assms(2) xs have m: "x \<in> {a, b, c}" "y \<in> {a, b, c}" "z \<in> {a, b, c}"
    and n: "a \<in> {x, y, z}" "b \<in> {x, y, z}" "c \<in> {x, y, z}"
    by auto
  from assms(1) xs have d: "x \<noteq> y" "x \<noteq> z" "y \<noteq> z" by auto
  from m n d assms(3-5) xs show ?thesis by auto
qed

text \<open>
  Claim C1, as amended. On a catalog made of two audio-only descriptors with bitrates
  128000 and 64000 and three video descriptors (1080p with audio, 1080p without audio,
  720p with audio), in any order, \<^verbatim>\<open>qualityOptions\<close> returns four options, not three:
  the audio option of the 128000 descriptor, then both 1080p options (the one of higher
  bitrate first, in catalog order when the bitrates are equal), then the 720p option.
  The 1080p descriptor without audio does produce an option, since the key of the
  \<^verbatim>\<open>seen\<close> set holds \<^verbatim>\<open>hasAudio\<close>.
\<close>

theorem qualityOptions_two_audio_three_video:
  assumes a1: "isAudioOnly a1" "bitrate a1 = Some 128000"
    and a2: "isAudioOnly a2" "bitrate a2 = Some 64000"
    and v1: "hasVideo v1" "hasAudio v1" "height v1 = Some 1080"
    and v2: "hasVideo v2" "\<not> hasAudio v2" "height v2 = Some 1080"
    and v3: "hasVideo v3" "hasAudio v3" "height v3 = Some 720"
    and fs: "distinct fs" "set fs = {a1, a2, v1, v2, v3}"
  shows "qualityOptions fs =
    [audioOption a1]
    @ map videoOption
        (if or0 (bitrate v1) < or0 (bitrate v2) then [v2, v1]
         else if or0 (bitrate v2) < or0 (bitrate v1) then [v1, v2]
         else filter (\<lambda>f. f = v1 \<or> f = v2) fs)
    @ [videoOption v3]"
proof -
  have ne: "a1 \<noteq> a2" "v1 \<noteq> v2" "v1 \<noteq> v3" "v2 \<noteq> v3"
    using a1 a2 v1 v2 v3 by auto
  have fa: "set (filter isAudioOnly fs) = {a1, a2}"
    using a1 a2 v1 v2 v3 fs by (auto simp: isAudioOnly_def)
  have fv: "set (filter hasVideo fs) = {v1, v2, v3}"
    using a1 a2 v1 v2 v3 fs by (auto simp: isAudioOnly_def)
  have f12: "filter (\<lambda>f. f = v1 \<or> f = v2) fs = filter (\<lambda>f. f = v1 \<or> f = v2) (filter hasVideo fs)"
    using v1 v2 by (auto simp: filter_filter intro!: filter_cong)
  from distinct_pair_cases[OF distinct_filter[OF fs(1)] fa ne(1)]
  have A: "filter isAudioOnly fs = [a1, a2] \<or> filter isAudioOnly fs = [a2, a1]" .
  from distinct_triple_cases[OF distinct_filter[OF fs(1)] fv ne(2) ne(3) ne(4)]
  have V: "filter hasVideo fs = [v1, v2, v3] \<or> filter hasVideo fs = [v1, v3, v2]
      \<or> filter hasVideo fs = [v2, v1, v3] \<or> filter hasVideo fs = [v2, v3, v1]
      \<or> filter hasVideo fs = [v3, v1, v2] \<or> filter hasVideo fs = [v3, v2, v1]" .
  have audio: "(case sort_by cmpBitrate (filter isAudioOnly fs) of [] \<Rightarrow> []
      | bestAudio # _ \<Rightarrow> [audioOption bestAudio]) = [audioOption a1]"
    using A a1 a2 by (auto simp: sort_by_def cmpBitrate_def or0_def)
  have keys: "seenKey v1 \<noteq> seenKey v2" "seenKey v1 \<noteq> seenKey v3" "seenKey v2 \<noteq> seenKey v3"
    using v1 v2 v3
    by (simp_all add: seenKey_def or0_def string_of_int_1080 string_of_int_720 string_of_bool_def)
  have video: "videoLoop {} [audioOption a1] (sort_by cmpVideo (filter hasVideo fs)) =
    [audioOption a1]
    @ map videoOption
        (if or0 (bitrate v1) < or0 (bitrate v2) then [v2, v1]
         else if or0 (bitrate v2) < or0 (bitrate v1) then [v1, v2]
         else filter (\<lambda>f. f = v1 \<or> f = v2) (filter hasVideo fs))
    @ [videoOption v3]"
    using V v1 v2 v3 keys ne
    by (elim disjE) (simp_all add: sort_by_def cmpVideo_def or0_def Let_def)
  show ?thesis
    unfolding qualityOptions_def Let_def audio f12 using video by simp
qed

theorem qualityOptions_two_audio_three_video_witness:
  "qualityOptions exampleCatalog =
     [audioOption (exampleFormat 140 False True None (Some 128000)),
      videoOption (exampleFormat 37 True True (Some 1080) (Some 5000000)),
      videoOption (exampleFormat 137 True False (Some 1080) (Some 4500000)),
      videoOption (exampleFormat 22 True True (Some 720) (Some 2000000))]"
  using qualityOptions_two_audio_three_video
    [of "exampleFormat 140 False True None (Some 128000)"
        "exampleFormat 139 False True None (Some 64000)"
        "exampleFormat 37 True True (Some 1080) (Some 5000000)"
        "exampleFormat 137 True False (Some 1080) (Some 4500000)"
        "exampleFormat 22 True True (Some 720) (Some 2000000)"
        exampleCatalog]
  by (simp add: exampleCatalog_def exampleFormat_def isAudioOnly_def or0_def)

text \<open>
  On the example catalog, where the 1080p descriptor with audio has the higher bitrate
  and so comes first, the options are four: the claim as first stated (three options,
  none for the 1080p descriptor without audio) fails.
\<close>

theorem qualityOptions_example_not_three:
  "map opt_value (qualityOptions exampleCatalog)
     = [''audio-140'', ''video-37'', ''video-137'', ''video-22'']
   \<and> length (qualityOptions exampleCatalog) \<noteq> 3"
  by code_simp

section \<open>The selector refines its specification\<close>

lemma insert_by_insort_key:
  assumes "\<And>x y. (cmp x y \<le> 0) = (k x \<le> k y)"
  shows "insert_by cmp x ys = insort_key k x ys"
  by (induction ys) (simp_all add: assms)

lemma sort_by_sort_key:
  assumes "\<And>x y. (cmp x y \<le> 0) = (k x \<le> k y)"
  shows "sort_by cmp xs = sort_key k xs"
  by (induction xs) (simp_all add: sort_by_def insert_by_insort_key[OF assms])

lemma sort_by_cmpVideo: "sort_by cmpVideo xs = sort_key heightBitrateKey xs"
  by (rule sort_by_sort_key) (auto simp: cmpVideo_def heightBitrateKey_def Let_def less_eq_prod_def)

lemma sort_by_cmpBitrate: "sort_by cmpBitrate xs = sort_key (\<lambda>f. - or0 (bitrate f)) xs"
  by (rule sort_by_sort_key) (auto simp: cmpBitrate_def)

lemma string_of_nat_digits: "c \<in> set (string_of_nat n) \<Longrightarrow> c \<noteq> CHR ''-''"
proof (induction n rule: string_of_nat.induct)
  case (1 n)
  have d: "digit_char d \<noteq> CHR ''-''" if "d < 10" for d
  proof
    assume "digit_char d = CHR ''-''"
    then have "(of_char (digit_char d) :: nat) = of_char CHR ''-''" by simp
    with that show False by (simp add: digit_char_def)
  qed
  show ?case
  proof (cases "n < 10")
    case True
    with "1.prems" have "c = digit_char n" by (subst (asm) string_of_nat.simps) simp
    with True d show ?thesis by simp
  next
    case False
    with "1.prems" have "c \<in> set (string_of_nat (n div 10)) \<or> c = digit_char (n mod 10)"
      by (subst (asm) string_of_nat.simps) auto
    with "1.IH"[OF False] d[of "n mod 10"] show ?thesis by auto
  qed
qed

lemma string_of_int_inj: "string_of_int i = string_of_int j \<Longrightarrow> i = j"
proof -
  assume eq: "string_of_int i = string_of_int j"
  have hd_nat: "hd (string_of_nat n) \<noteq> CHR ''-''" for n
    using string_of_nat_digits[of "hd (string_of_nat n)" n] string_of_nat_nonempty[of n]
    by simp
  show ?thesis
  proof (cases "i < 0")
    case True
    show ?thesis
    proof (cases "j < 0")
      case j: True
      with True eq have "string_of_nat (nat (- i)) = string_of_nat (nat (- j))"
        by (simp add: string_of_int_def)
      then have "nat (- i) = nat (- j)" by (rule string_of_nat_inj)
      with True j show ?thesis by simp
    next
      case False
      with True eq have "CHR ''-'' # string_of_nat (nat (- i)) = string_of_nat (nat j)"
        by (simp add: string_of_int_def)
      then have "hd (string_of_nat (nat j)) = CHR ''-''" by (metis list.sel(1))
      with hd_nat show ?thesis by simp
    qed
  next
    case False
    show ?thesis
    proof (cases "j < 0")
      case True
      with False eq have "string_of_nat (nat i) = CHR ''-'' # string_of_nat (nat (- j))"
        by (simp add: string_of_int_def)
      then have "hd (string_of_nat (nat i)) = CHR ''-''" by (metis list.sel(1))
      with hd_nat show ?thesis by simp
    next
      case j: False
      with False eq have "string_of_nat (nat i) = string_of_nat (nat j)"
        by (simp add: string_of_int_def)
      then have "nat i = nat j" by (rule string_of_nat_inj)
      with False j show ?thesis by simp
    qed
  qed
qed

lemma seenKey_eq_iff: "seenKey f = seenKey g \<longleftrightarrow> dedupKey f = dedupKey g"
proof
  assume eq: "seenKey f = seenKey g"
  have len: "length (string_of_bool (hasAudio f)) = length (string_of_bool (hasAudio g))
    \<Longrightarrow> hasAudio f = hasAudio g"
    by (auto simp: string_of_bool_def split: if_splits)
  show "dedupKey f = dedupKey g"
  proof (cases "hasAudio f = hasAudio g")
    case True
    with eq have "string_of_int (or0 (height f)) = string_of_int (or0 (height g))"
      by (simp add: seenKey_def)
    with True show ?thesis by (simp add: dedupKey_def string_of_int_inj)
  next
    case False
    from eq have "rev (seenKey f) ! 1 = rev (seenKey g) ! 1" by simp
    with False show ?thesis
      by (cases "hasAudio f"; cases "hasAudio g") (simp_all add: seenKey_def string_of_bool_def)
  qed
next
  assume "dedupKey f = dedupKey g"
  then show "seenKey f = seenKey g" by (simp add: dedupKey_def seenKey_def)
qed

lemma videoLoop_firstSeen:
  "videoLoop seen opts xs =
     opts @ map videoOption (firstSeen dedupKey (filter (\<lambda>y. seenKey y \<notin> seen) xs))"
proof (induction xs arbitrary: seen opts)
  case Nil
  show ?case by simp
next
  case (Cons x xs)
  show ?case
  proof (cases "seenKey x \<in> seen")
    case True
    with Cons.IH show ?thesis by simp
  next
    case False
    have "filter (\<lambda>y. dedupKey y \<noteq> dedupKey x) (filter (\<lambda>y. seenKey y \<notin> seen) xs)
        = filter (\<lambda>y. seenKey y \<notin> insert (seenKey x) seen) xs"
      by (simp add: seenKey_eq_iff[symmetric] conj_commute)
    with False Cons.IH[of "insert (seenKey x) seen" "opts @ [videoOption x]"]
    show ?thesis by simp
  qed
qed

lemma sort_key_head_is_first_min:
  fixes k :: "'a \<Rightarrow> int"
  assumes "sort_key k xs = y # ys"
  shows "List.find (\<lambda>a. \<forall>b \<in> set xs. k a \<le> k b) xs = Some y"
  using assms
proof (induction xs arbitrary: y ys)
  case Nil
  then show ?case by simp
next
  case (Cons x xs)
  show ?case
  proof (cases "sort_key k xs")
    case Nil
    then have "xs = []" by (metis length_sort list.size(3) length_0_conv)
    with Cons.prems show ?thesis by simp
  next
    case (Cons y' ys')
    from Cons.IH[OF this]
    have f: "List.find (\<lambda>a. \<forall>b \<in> set xs. k a \<le> k b) xs = Some y'" .
    then have y'_in: "y' \<in> set xs" and y'_min: "\<forall>b \<in> set xs. k y' \<le> k b"
      by (auto simp: find_Some_iff)
    show ?thesis
    proof (cases "k x \<le> k y'")
      case True
      with Cons Cons.prems have "y = x" by simp
      moreover from True y'_min have "\<forall>b \<in> set (x # xs). k x \<le> k b" by auto
      ultimately show ?thesis by simp
    next
      case False
      with Cons Cons.prems have y: "y = y'" by simp
      from False y'_in have nx: "\<not> (\<forall>b \<in> set (x # xs). k x \<le> k b)" by auto
      have "List.find (\<lambda>a. \<forall>b \<in> set (x # xs). k a \<le> k b) xs
          = List.find (\<lambda>a. \<forall>b \<in> set xs. k a \<le> k b) xs"
      proof (rule find_cong[OF refl])
        fix a assume "a \<in> set xs"
        show "(\<forall>b \<in> set (x # xs). k a \<le> k b) = (\<forall>b \<in> set xs. k a \<le> k b)"
          using False y'_in by force
      qed
      with nx f y show ?thesis by auto
    qed
  qed
qed

lemma bestAudio_spec:
  "(case sort_by cmpBitrate (filter isAudioOnly fs) of [] \<Rightarrow> [] | a # _ \<Rightarrow> [audioOption a])
     = (case spec_bestAudio fs of None \<Rightarrow> [] | Some a \<Rightarrow> [audioOption a])"
proof (cases "sort_by cmpBitrate (filter isAudioOnly fs)")
  case Nil
  then have "filter isAudioOnly fs = []"
    by (metis sort_by_cmpBitrate length_sort length_0_conv)
  with Nil show ?thesis by (simp add: spec_bestAudio_def)
next
  case (Cons a as)
  then have "sort_key (\<lambda>f. - or0 (bitrate f)) (filter isAudioOnly fs) = a # as"
    by (simp add: sort_by_cmpBitrate)
  from sort_key_head_is_first_min[OF this]
  have "spec_bestAudio fs = Some a" by (simp add: spec_bestAudio_def)
  with Cons show ?thesis by simp
qed

lemma amendedLabel_videoLabel: "amendedLabel f = videoLabel f"
  by (auto simp: amendedLabel_def videoLabel_def qualityLabelOf_def heightText_def or0_def
      Let_def split: option.splits)

lemma qualityOptions_decomposition:
  "qualityOptions fs =
     (case spec_bestAudio fs of None \<Rightarrow> [] | Some a \<Rightarrow> [audioOption a])
     @ map videoOption (spec_videoDescriptors fs)"
  unfolding qualityOptions_def spec_videoDescriptors_def Let_def
  by (simp add: videoLoop_firstSeen bestAudio_spec sort_by_cmpVideo)

lemma sort_key_heightBitrate_descending:
  "sorted_wrt (\<lambda>a b. or0 (height b) < or0 (height a)
       \<or> (or0 (height a) = or0 (height b) \<and> or0 (bitrate b) \<le> or0 (bitrate a)))
     (sort_key heightBitrateKey xs)"
proof -
  have "sorted (map heightBitrateKey (sort_key heightBitrateKey xs))" by (rule sorted_sort_key)
  then have "sorted_wrt (\<lambda>a b. heightBitrateKey a \<le> heightBitrateKey b)
      (sort_key heightBitrateKey xs)"
    by (simp add: sorted_wrt_map)
  then show ?thesis
    by (rule sorted_wrt_mono_rel[rotated])
       (auto simp: heightBitrateKey_def less_eq_prod_def)
qed

text \<open>
  Claim C2, as amended. For every catalog, \<^verbatim>\<open>qualityOptions\<close> returns: first, if a
  descriptor has audio and no video, one audio option, whose descriptor is the
  audio-only descriptor of highest bitrate (a missing bitrate counting as 0; the first
  such in catalog order); then the descriptors with video, sorted descending by height,
  then descending by bitrate (missing values counting as 0), deduplicated first-seen by
  the key (height-or-0, hasAudio), each as an option whose merge flag is the negation of
  \<^verbatim>\<open>hasAudio\<close> and whose label is the quality label (when it is missing or empty: the
  height followed by \<^verbatim>\<open>p\<close>, a missing or zero height written \<^verbatim>\<open>?\<close>), a space, the
  upper-cased container, and \<^verbatim>\<open> (Video + Audio)\<close> or
  \<^verbatim>\<open> (Video Only - will merge with audio)\<close>, the dash being the ASCII hyphen; and
  nothing else, in that order.
\<close>

theorem qualityOptions_refines_amended_spec:
  "qualityOptions fs = spec_qualityOptions amendedLabel fs
   \<and> sorted_wrt (\<lambda>a b. or0 (height b) < or0 (height a)
         \<or> (or0 (height a) = or0 (height b) \<and> or0 (bitrate b) \<le> or0 (bitrate a)))
       (sort_key heightBitrateKey (filter hasVideo fs))"
proof -
  have label: "opt_label (videoOption f) = amendedLabel f" for f
    by (simp add: videoOption_def amendedLabel_videoLabel)
  have "videoOption f =
      \<lparr> opt_value = ''video-'' @ string_of_int (itag f), opt_label = amendedLabel f,
        opt_format = f, requiresMerge = (\<not> hasAudio f), opt_group = Video \<rparr>" for f
    using label[of f] by (simp add: videoOption_def)
  then have "map videoOption (spec_videoDescriptors fs) =
      map (\<lambda>f. \<lparr> opt_value = ''video-'' @ string_of_int (itag f), opt_label = amendedLabel f,
                    opt_format = f, requiresMerge = (\<not> hasAudio f), opt_group = Video \<rparr>)
        (spec_videoDescriptors fs)"
    by simp
  with qualityOptions_decomposition[of fs]
  have "qualityOptions fs = spec_qualityOptions amendedLabel fs"
    by (simp add: spec_qualityOptions_def)
  with sort_key_heightBitrate_descending[of "filter hasVideo fs"] show ?thesis
    by simp
qed

theorem qualityOptions_refines_amended_spec_witness:
  "map opt_label (spec_qualityOptions amendedLabel exampleCatalog) =
     [''MP3 Audio (Best Quality)'', ''1080p MP4 (Video + Audio)'',
      ''1080p MP4 (Video Only - will merge with audio)'', ''720p MP4 (Video + Audio)'']"
proof -
  have "map opt_label (qualityOptions exampleCatalog) =
     [''MP3 Audio (Best Quality)'', ''1080p MP4 (Video + Audio)'',
      ''1080p MP4 (Video Only - will merge with audio)'', ''720p MP4 (Video + Audio)'']"
    by code_simp
  with qualityOptions_refines_amended_spec[of exampleCatalog] show ?thesis by simp
qed

text \<open>
  The labels of the source against the labels as the claim first words them, on a
  video-only descriptor and on a descriptor with neither quality label nor height.
\<close>

theorem qualityOptions_claimed_label_differs:
  "map opt_label (qualityOptions labelCatalog)
     = [''1080p MP4 (Video Only - will merge with audio)'', ''?p MP4 (Video + Audio)'']
   \<and> map opt_label (spec_qualityOptions claimedLabel labelCatalog)
     = [''1080p MP4 (Video Only '' @ emDash @ '' will merge with audio)'',
        ''0p MP4 (Video + Audio)'']
   \<and> qualityOptions labelCatalog \<noteq> spec_qualityOptions claimedLabel labelCatalog"
  by code_simp

section \<open>Value keys of the options\<close>

lemma set_firstSeen: "set (firstSeen key xs) \<subseteq> set xs"
  by (induction key xs rule: firstSeen.induct) auto

lemma distinct_map_firstSeen:
  "distinct (map f xs) \<Longrightarrow> distinct (map f (firstSeen key xs))"
proof (induction key xs rule: firstSeen.induct)
  case (1 key)
  show ?case by simp
next
  case (2 key x xs)
  from "2.prems" have "distinct (map f (filter (\<lambda>y. key y \<noteq> key x) xs))"
    by (simp add: distinct_map_filter)
  from "2.IH"[OF this]
  have d: "distinct (map f (firstSeen key (filter (\<lambda>y. key y \<noteq> key x) xs)))" .
  have "set (firstSeen key (filter (\<lambda>y. key y \<noteq> key x) xs)) \<subseteq> set xs"
    using set_firstSeen[of key "filter (\<lambda>y. key y \<noteq> key x) xs"] by auto
  with "2.prems" have "f x \<notin> f ` set (firstSeen key (filter (\<lambda>y. key y \<noteq> key x) xs))"
    by auto
  with d show ?case by simp
qed

lemma distinct_map_sort_key:
  "distinct (map f (sort_key k xs)) = distinct (map f xs)"
  by (simp add: distinct_map)

lemma spec_videoDescriptors_subset: "set (spec_videoDescriptors fs) \<subseteq> {f \<in> set fs. hasVideo f}"
  using set_firstSeen[of dedupKey "sort_key heightBitrateKey (filter hasVideo fs)"]
  by (auto simp: spec_videoDescriptors_def)

lemma spec_videoDescriptors_distinct:
  "distinct (map itag fs) \<Longrightarrow> distinct (map itag (spec_videoDescriptors fs))"
  unfolding spec_videoDescriptors_def
  by (intro distinct_map_firstSeen) (simp add: distinct_map_sort_key distinct_map_filter)

lemma spec_bestAudio_Some: "spec_bestAudio fs = Some a \<Longrightarrow> a \<in> set fs \<and> isAudioOnly a"
  by (auto simp: spec_bestAudio_def find_Some_iff dest: nth_mem)

lemma qualityOptions_value_key_form:
  "\<forall>opt \<in> set (qualityOptions fs).
     opt_value opt = (case opt_group opt of Audio \<Rightarrow> ''audio-'' | Video \<Rightarrow> ''video-'')
                       @ string_of_int (itag (opt_format opt))"
  by (auto simp: qualityOptions_decomposition audioOption_def videoOption_def
      split: option.splits)

text \<open>
  Claim C10. For every catalog whose descriptors have pairwise distinct format tags, the
  options of the selector have pairwise distinct value keys, and their descriptors have
  pairwise distinct tags, so that a lookup by value key or by tag finds one option; the
  value key of an option is \<^verbatim>\<open>audio-\<close> (audio option) or \<^verbatim>\<open>video-\<close> (video option)
  followed by the tag of its descriptor.
\<close>

theorem qualityOptions_value_keys_distinct:
  assumes "distinct (map itag fs)"
  shows "distinct (map opt_value (qualityOptions fs))
    \<and> distinct (map (\<lambda>opt. itag (opt_format opt)) (qualityOptions fs))
    \<and> (\<forall>opt \<in> set (qualityOptions fs).
          opt_value opt = (case opt_group opt of Audio \<Rightarrow> ''audio-'' | Video \<Rightarrow> ''video-'')
                            @ string_of_int (itag (opt_format opt)))"
proof -
  let ?vs = "spec_videoDescriptors fs"
  have dv: "distinct (map itag ?vs)" using assms by (rule spec_videoDescriptors_distinct)
  have inj: "inj (\<lambda>i. ''video-'' @ string_of_int i)"
    by (rule injI) (simp add: string_of_int_inj)
  have "distinct (map ((\<lambda>i. ''video-'' @ string_of_int i) \<circ> itag) ?vs)"
    using dv inj by (metis distinct_map inj_on_subset map_map subset_UNIV)
  then have d1: "distinct (map (\<lambda>f. opt_value (videoOption f)) ?vs)"
    by (simp add: videoOption_def comp_def)
  have d2: "distinct (map (\<lambda>f. itag (opt_format (videoOption f))) ?vs)"
    using dv by (simp add: videoOption_def)
  have eq: "qualityOptions fs =
      (case spec_bestAudio fs of None \<Rightarrow> [] | Some a \<Rightarrow> [audioOption a]) @ map videoOption ?vs"
    by (rule qualityOptions_decomposition)
  have "distinct (map opt_value (qualityOptions fs))
    \<and> distinct (map (\<lambda>opt. itag (opt_format opt)) (qualityOptions fs))"
  proof (cases "spec_bestAudio fs")
    case None
    with eq d1 d2 show ?thesis by (simp add: comp_def)
  next
    case (Some a)
    then have a: "a \<in> set fs" "isAudioOnly a" using spec_bestAudio_Some by auto
    have v: "f \<in> set fs \<and> hasVideo f" if "f \<in> set ?vs" for f
      using that spec_videoDescriptors_subset[of fs] by auto
    have "itag a \<noteq> itag f" if "f \<in> set ?vs" for f
    proof
      assume e: "itag a = itag f"
      from v[OF that] a assms have "a = f"
        using e by (metis distinct_map inj_on_def)
      with v[OF that] a show False by (simp add: isAudioOnly_def)
    qed
    then have n2: "itag a \<notin> itag ` set ?vs" by auto
    have n1: "opt_value (audioOption a) \<notin> (\<lambda>f. opt_value (videoOption f)) ` set ?vs"
      by (auto simp: audioOption_def videoOption_def)
    from eq Some d1 d2 n1 n2 show ?thesis
      by (simp add: comp_def audioOption_def videoOption_def image_iff)
  qed
  with qualityOptions_value_key_form[of fs] show ?thesis by simp
qed

theorem qualityOptions_value_keys_distinct_witness:
  "distinct (map itag exampleCatalog)
   \<and> distinct (map opt_value (qualityOptions exampleCatalog))
   \<and> distinct (map (\<lambda>opt. itag (opt_format opt)) (qualityOptions exampleCatalog))
   \<and> map opt_value (qualityOptions exampleCatalog)
       = [''audio-140'', ''video-37'', ''video-137'', ''video-22'']"
proof -
  have h: "distinct (map itag exampleCatalog)"
    by (simp add: exampleCatalog_def exampleFormat_def)
  have v: "map opt_value (qualityOptions exampleCatalog)
       = [''audio-140'', ''video-37'', ''video-137'', ''video-22'']"
    by code_simp
  from qualityOptions_value_keys_distinct[OF h] h v show ?thesis by simp
qed

section \<open>The info endpoint: validation\<close>

lemma extract_not_a_url: "extractVideoId ''not a url'' = None" by code_simp
lemma extract_short: "extractVideoId ''short'' = None" by code_simp
lemma extract_short_link: "extractVideoId ''youtu.be/short'' = Some ''short''" by code_simp
lemma short_invalid: "\<not> isVideoId ''short''" by code_simp

lemma searchUrlPattern_Some_nonempty: "searchUrlPattern u = Some t \<Longrightarrow> u \<noteq> []"
  by (cases u) auto

text \<open>
  Claim C7, as amended. An input that matches no URL pattern and is not itself an
  11-character identifier fails with \<^verbatim>\<open>INVALID_URL\<close>: so does \<^verbatim>\<open>not a url\<close>, and so
  does the bare token \<^verbatim>\<open>short\<close>, since the bare-token pattern is the identifier
  pattern itself. \<^verbatim>\<open>INVALID_VIDEO_ID\<close> is the answer when a URL pattern captured a
  token that is not 11 characters of \<^verbatim>\<open>[a-zA-Z0-9_-]\<close>, as for
  \<^verbatim>\<open>youtu.be/short\<close>.
\<close>

theorem GET_info_invalid_input:
  "GET_info (Some ''not a url'') getInfo = InfoError INVALID_URL 400
   \<and> GET_info (Some ''short'') getInfo = InfoError INVALID_URL 400
   \<and> GET_info (Some ''youtu.be/short'') getInfo = InfoError INVALID_VIDEO_ID 400
   \<and> (u \<noteq> [] \<longrightarrow> searchUrlPattern u = None \<longrightarrow> \<not> isVideoId u
        \<longrightarrow> GET_info (Some u) getInfo = InfoError INVALID_URL 400)
   \<and> (searchUrlPattern u = Some t \<longrightarrow> \<not> isVideoId t
        \<longrightarrow> GET_info (Some u) getInfo = InfoError INVALID_VIDEO_ID 400)"
  using searchUrlPattern_Some_nonempty[of u t]
  by (simp add: GET_info_def extract_not_a_url extract_short extract_short_link short_invalid)
     (simp add: extractVideoId_def)

theorem GET_info_invalid_input_witness:
  "GET_info (Some ''not a url'') serviceDown = InfoError INVALID_URL 400
   \<and> GET_info (Some ''short'') serviceDown = InfoError INVALID_URL 400
   \<and> GET_info (Some ''youtu.be/short'') serviceDown = InfoError INVALID_VIDEO_ID 400
   \<and> searchUrlPattern ''youtu.be/short'' = Some ''short'' \<and> \<not> isVideoId ''short''
   \<and> searchUrlPattern ''short'' = None"
proof -
  have a: "searchUrlPattern ''youtu.be/short'' = Some ''short''" by code_simp
  have b: "searchUrlPattern ''short'' = None" by code_simp
  from GET_info_invalid_input[of serviceDown "''youtu.be/short''" "''short''"] a b short_invalid
  show ?thesis by simp
qed

text \<open>
  The bare token \<^verbatim>\<open>short\<close> is answered with \<^verbatim>\<open>INVALID_URL\<close>, not with
  \<^verbatim>\<open>INVALID_VIDEO_ID\<close> as the claim first states.
\<close>

theorem GET_info_short_is_invalid_url:
  "GET_info (Some ''short'') serviceDown = InfoError INVALID_URL 400
   \<and> GET_info (Some ''short'') serviceDown \<noteq> InfoError INVALID_VIDEO_ID 400"
  by (simp add: GET_info_def extract_short)

section \<open>The info endpoint: the formats list\<close>

lemma startsWith_prefix: "startsWith s p \<longleftrightarrow> prefix p s"
proof
  assume "startsWith s p"
  then have "take (length p) s = p" by (simp add: startsWith_def)
  then show "prefix p s" by (metis take_is_prefix)
next
  assume "prefix p s"
  then show "startsWith s p" by (auto simp: startsWith_def elim: prefixE)
qed

lemma str_includes_sublist: "str_includes s p \<longleftrightarrow> sublist p s"
  by (induction s) (simp_all add: startsWith_prefix sublist_Cons_right)

lemma catalogFormats_spec:
  "catalogFormats raw =
     filter (\<lambda>d. \<not> (sublist ''webp'' (mimeType d) \<or> container d = ''webp'')
                  \<and> (\<exists>a. url d = Some a \<and> a \<noteq> [] \<and> prefix ''http'' a))
       (map parseFormat raw)"
  unfolding catalogFormats_def
  by (rule filter_cong[OF refl])
     (auto simp: isWebP_def hasValidUrl_def str_includes_sublist startsWith_prefix
           split: option.splits)

lemma extract_example_link: "extractVideoId ''https://youtu.be/dQw4w9WgXcQ'' = Some ''dQw4w9WgXcQ''" by code_simp
lemma example_id_valid: "isVideoId ''dQw4w9WgXcQ''" by code_simp

text \<open>
  Claim C3. Once the validation has passed and the resolution service has answered, the
  info endpoint answers with success, and its formats list is exactly the normalized
  descriptors, in the order of the service, whose MIME type does not contain
  \<^verbatim>\<open>webp\<close>, whose container is not \<^verbatim>\<open>webp\<close>, and whose address is present, not
  empty and starts with \<^verbatim>\<open>http\<close>. When no descriptor passes, the answer is still a
  success, with an empty formats list.
\<close>

theorem GET_info_formats:
  assumes "u \<noteq> []" and "extractVideoId u = Some vid" and "isVideoId vid"
  shows "GET_info (Some u) (Returned info) = InfoOk (buildVideoInfo vid info)
     \<and> formats (buildVideoInfo vid info) =
         filter (\<lambda>d. \<not> (sublist ''webp'' (mimeType d) \<or> container d = ''webp'')
                      \<and> (\<exists>a. url d = Some a \<and> a \<noteq> [] \<and> prefix ''http'' a))
           (map parseFormat (info_formats info))"
  using assms by (simp add: GET_info_def buildVideoInfo_def Let_def catalogFormats_spec)

theorem GET_info_formats_witness:
  "GET_info (Some ''https://youtu.be/dQw4w9WgXcQ'') (Returned (exampleInfo exampleRawFormats))
     = InfoOk (buildVideoInfo ''dQw4w9WgXcQ'' (exampleInfo exampleRawFormats))
   \<and> map itag (formats (buildVideoInfo ''dQw4w9WgXcQ'' (exampleInfo exampleRawFormats)))
       = [4, 18]
   \<and> GET_info (Some ''https://youtu.be/dQw4w9WgXcQ'')
         (Returned (exampleInfo (take 3 exampleRawFormats)))
     = InfoOk (buildVideoInfo ''dQw4w9WgXcQ'' (exampleInfo (take 3 exampleRawFormats)))
   \<and> formats (buildVideoInfo ''dQw4w9WgXcQ'' (exampleInfo (take 3 exampleRawFormats))) = []"
proof -
  have n: "''https://youtu.be/dQw4w9WgXcQ'' \<noteq> []" by simp
  have a: "map itag (catalogFormats exampleRawFormats) = [4, 18]" by code_simp
  have b: "catalogFormats (take 3 exampleRawFormats) = []" by code_simp
  from GET_info_formats[OF n extract_example_link example_id_valid, of "exampleInfo exampleRawFormats"]
    GET_info_formats[OF n extract_example_link example_id_valid,
      of "exampleInfo (take 3 exampleRawFormats)"] a b
  show ?thesis
    by (simp add: catalogFormats_spec[symmetric] exampleInfo_def buildVideoInfo_def Let_def)
qed

section \<open>The flags of the descriptors\<close>

lemma parseFormat_flags_update:
  "parseFormat (r\<lparr>raw_hasVideo := v, raw_hasAudio := a\<rparr>)
     = (parseFormat r)\<lparr>hasVideo := orFalse v, hasAudio := orFalse a\<rparr>"
  by (simp add: parseFormat_def)

lemma catalog_filter_ignores_flags:
  "(\<not> isWebP (d\<lparr>hasVideo := v, hasAudio := a\<rparr>) \<and> hasValidUrl (d\<lparr>hasVideo := v, hasAudio := a\<rparr>))
     = (\<not> isWebP d \<and> hasValidUrl d)"
  by (simp add: isWebP_def hasValidUrl_def)

lemma catalogFormats_ignores_flags:
  "catalogFormats (map (\<lambda>r. r\<lparr>raw_hasVideo := v, raw_hasAudio := a\<rparr>) rs)
     = map (\<lambda>d. d\<lparr>hasVideo := orFalse v, hasAudio := orFalse a\<rparr>) (catalogFormats rs)"
  by (induction rs)
     (simp_all add: catalogFormats_def parseFormat_flags_update catalog_filter_ignores_flags)

lemma qualityOptions_flags:
  assumes "opt \<in> set (qualityOptions fs)"
  shows "hasVideo (opt_format opt) \<or> hasAudio (opt_format opt)"
proof -
  from assms have "opt \<in> set (case spec_bestAudio fs of None \<Rightarrow> [] | Some a \<Rightarrow> [audioOption a])
      \<or> opt \<in> videoOption ` set (spec_videoDescriptors fs)"
    by (auto simp: qualityOptions_decomposition)
  then show ?thesis
  proof
    assume "opt \<in> set (case spec_bestAudio fs of None \<Rightarrow> [] | Some a \<Rightarrow> [audioOption a])"
    then obtain a where "spec_bestAudio fs = Some a" and "opt = audioOption a"
      by (cases "spec_bestAudio fs") auto
    with spec_bestAudio_Some[of fs a] show ?thesis
      by (simp add: audioOption_def isAudioOnly_def)
  next
    assume "opt \<in> videoOption ` set (spec_videoDescriptors fs)"
    with spec_videoDescriptors_subset[of fs] show ?thesis
      by (auto simp: videoOption_def)
  qed
qed

text \<open>
  Claim C8, as amended. The catalog builder does not read \<^verbatim>\<open>hasVideo\<close> and
  \<^verbatim>\<open>hasAudio\<close>: which descriptors it keeps does not depend on the flags, so a
  descriptor with neither is kept whenever it passes the WebP and the address filter.
  The invariant holds one step later: the descriptor of every option that the quality
  selector offers has video or audio.
\<close>

theorem catalog_keeps_flags_selector_requires_one:
  "catalogFormats (map (\<lambda>r. r\<lparr>raw_hasVideo := v, raw_hasAudio := a\<rparr>) rs)
     = map (\<lambda>d. d\<lparr>hasVideo := orFalse v, hasAudio := orFalse a\<rparr>) (catalogFormats rs)
   \<and> (\<forall>opt \<in> set (qualityOptions fs). hasVideo (opt_format opt) \<or> hasAudio (opt_format opt))"
  using catalogFormats_ignores_flags qualityOptions_flags by blast

theorem catalog_keeps_flags_selector_requires_one_witness:
  "catalogFormats (map (\<lambda>r. r\<lparr>raw_hasVideo := Some False, raw_hasAudio := None\<rparr>)
       exampleRawFormats)
     = map (\<lambda>d. d\<lparr>hasVideo := False, hasAudio := False\<rparr>) (catalogFormats exampleRawFormats)
   \<and> list_all (\<lambda>opt. hasVideo (opt_format opt) \<or> hasAudio (opt_format opt))
         (qualityOptions exampleCatalog)"
  using catalog_keeps_flags_selector_requires_one
    [where v = "Some False" and a = None and rs = exampleRawFormats and fs = exampleCatalog]
  by (simp add: list_all_iff orFalse_def)

text \<open>
  The formats list of the info endpoint on the example answer of the service holds the
  descriptor with tag 4, which has neither video nor audio.
\<close>

theorem catalog_keeps_descriptor_without_flags:
  "(case GET_info (Some ''https://youtu.be/dQw4w9WgXcQ'')
           (Returned (exampleInfo exampleRawFormats)) of
      InfoOk d \<Rightarrow> map (\<lambda>f. (itag f, hasVideo f, hasAudio f)) (formats d)
    | InfoError c s \<Rightarrow> [])
     = [(4, False, False), (18, True, True)]"
  by code_simp

section \<open>The file name of a direct save\<close>

lemma lower_char_underscore: "lower_char CHR ''_'' = CHR ''_''"
  by (simp add: lower_char_def is_upper_def)

lemma sanitizeTitle_pointwise:
  "sanitizeTitle t = map (\<lambda>c. if isAlnum c then lower_char c else CHR ''_'') t"
  by (simp add: sanitizeTitle_def toLowerCase_def lower_char_underscore cong: if_cong)

text \<open>
  Claim C9, as amended. For every title and container, the file name of the save that
  \<^verbatim>\<open>downloadVideo\<close> triggers for a format with audio (muxed or audio-only) is the
  title with every non-alphanumeric character replaced by an underscore of its own and
  every letter lower-cased, then a dot and the container: a run of such characters
  gives as many underscores, it is not collapsed to one.
\<close>

theorem downloadVideo_direct_save_filename:
  assumes "hasAudio format"
  shows "st_effects (downloadVideo (Some format) (Some info) videoEvents audioEvents eng st)
     = st_effects st @ [AnchorClick (url format)
         (map (\<lambda>c. if isAlnum c then lower_char c else CHR ''_'') (title info)
            @ ''.'' @ container format)]"
  using assms
  by (simp add: downloadVideo_def nativeDownload_def downloadFilename_def
      sanitizeTitle_pointwise setProgress_def setError_def addEffect_def Let_def)

theorem downloadVideo_direct_save_filename_witness:
  "st_effects (downloadVideo (Some (exampleFormat 37 True True (Some 1080) (Some 5000000)))
       (Some exampleVideoInfo) (XhrError, FetchAborted) (XhrError, FetchAborted) okEngine
       initialState)
     = [AnchorClick (Some ''https://example.com/stream'') ''a__b.mp4'']"
proof -
  have h: "hasAudio (exampleFormat 37 True True (Some 1080) (Some 5000000))"
    by (simp add: exampleFormat_def)
  have m: "map (\<lambda>c. if isAlnum c then lower_char c else CHR ''_'') ''a, b'' = ''a__b''"
    by code_simp
  from downloadVideo_direct_save_filename[OF h, of exampleVideoInfo "(XhrError, FetchAborted)"
      "(XhrError, FetchAborted)" okEngine initialState] m
  show ?thesis by (simp add: exampleVideoInfo_def exampleFormat_def initialState_def)
qed

text \<open>
  The title \<^verbatim>\<open>a, b\<close> has a run of two non-alphanumeric characters: the file name has
  two underscores, where the claim as first stated has one.
\<close>

theorem downloadFilename_keeps_runs:
  "downloadFilename ''a, b'' ''mp4'' = ''a__b.mp4''
   \<and> claimedFilename ''a, b'' ''mp4'' = ''a_b.mp4''
   \<and> downloadFilename ''a, b'' ''mp4'' \<noteq> claimedFilename ''a, b'' ''mp4''"
  by code_simp

section \<open>The merge and its clean-up\<close>

text \<open>
  The calls of a merge, for every engine whose load and writes return: what is called,
  and what is thrown, when the combine step throws, when the read of the output throws,
  and when every call returns.
\<close>

lemma mergeWithFFmpeg_calls:
  assumes "st_ffmpegRef st \<or> load_result eng = None"
    and "writeFile_result eng ''video.mp4'' = None"
    and "writeFile_result eng ''audio.mp4'' = None"
  shows "(exec_result eng = Inl e \<longrightarrow>
            snd (mergeWithFFmpeg eng videoBlob audioBlob out st) = Some e
          \<and> st_effects (fst (mergeWithFFmpeg eng videoBlob audioBlob out st))
              = st_effects st @ (if st_ffmpegRef st then [] else [EngineLoad])
                @ [WriteFile ''video.mp4'' videoBlob, WriteFile ''audio.mp4'' audioBlob,
                   Exec mergeArgs])
       \<and> (exec_result eng = Inr code \<longrightarrow> readFile_result eng = Inl e \<longrightarrow>
            snd (mergeWithFFmpeg eng videoBlob audioBlob out st) = Some e
          \<and> st_effects (fst (mergeWithFFmpeg eng videoBlob audioBlob out st))
              = st_effects st @ (if st_ffmpegRef st then [] else [EngineLoad])
                @ [WriteFile ''video.mp4'' videoBlob, WriteFile ''audio.mp4'' audioBlob,
                   Exec mergeArgs, ReadFile ''output.mp4''])
       \<and> (exec_result eng = Inr code \<longrightarrow> readFile_result eng = Inr body
            \<longrightarrow> deleteFile_result eng ''video.mp4'' = None
            \<longrightarrow> deleteFile_result eng ''audio.mp4'' = None
            \<longrightarrow> deleteFile_result eng ''output.mp4'' = None
            \<longrightarrow> snd (mergeWithFFmpeg eng videoBlob audioBlob out st) = None
          \<and> st_effects (fst (mergeWithFFmpeg eng videoBlob audioBlob out st))
              = st_effects st @ (if st_ffmpegRef st then [] else [EngineLoad])
                @ [WriteFile ''video.mp4'' videoBlob, WriteFile ''audio.mp4'' audioBlob,
                   Exec mergeArgs, ReadFile ''output.mp4'', DeleteFile ''video.mp4'',
                   DeleteFile ''audio.mp4'', DeleteFile ''output.mp4'', SaveBlob body out])"
  using assms
  by (auto simp: mergeWithFFmpeg_def initFFmpeg_def cleanUpAndSave_def setProgress_def
      addEffect_def Let_def)

text \<open>
  Claim C4, which the source breaks. The claim: the three deletions (video input, audio
  input, output) are issued whatever the combine step does, and a failing combine hands
  the error of the engine to the caller unchanged. The source has the deletions (lines
  207 to 209), on an engine that it reuses, but it awaits the combine step before them
  and outside any \<^verbatim>\<open>try\<close> and \<^verbatim>\<open>finally\<close>. With an engine whose combine step throws,
  the error does reach the caller unchanged, but the calls made are the load, the two
  writes and the combine: no deletion is issued, and the two inputs stay in the virtual
  file system. Moreover the exit code of the combine step is discarded (line 188): with
  an engine whose combine step returns the exit code 1 and whose output can be read, no
  error reaches the caller and the download ends \<^verbatim>\<open>complete\<close>.
\<close>

theorem mergeWithFFmpeg_failed_combine_no_deletion:
  "snd (mergeWithFFmpeg failingEngine ''v'' ''a'' ''a__b.mp4'' initialState) = Some conversionFailed
   \<and> st_effects (fst (mergeWithFFmpeg failingEngine ''v'' ''a'' ''a__b.mp4'' initialState))
       = [EngineLoad, WriteFile ''video.mp4'' ''v'', WriteFile ''audio.mp4'' ''a'', Exec mergeArgs]
   \<and> DeleteFile ''video.mp4''
       \<notin> set (st_effects (fst (mergeWithFFmpeg failingEngine ''v'' ''a'' ''a__b.mp4'' initialState)))
   \<and> DeleteFile ''audio.mp4''
       \<notin> set (st_effects (fst (mergeWithFFmpeg failingEngine ''v'' ''a'' ''a__b.mp4'' initialState)))
   \<and> DeleteFile ''output.mp4''
       \<notin> set (st_effects (fst (mergeWithFFmpeg failingEngine ''v'' ''a'' ''a__b.mp4'' initialState)))
   \<and> snd (mergeWithFFmpeg exitCodeEngine ''v'' ''a'' ''a__b.mp4'' initialState) = None
   \<and> stage (st_progress (fst (mergeWithFFmpeg exitCodeEngine ''v'' ''a'' ''a__b.mp4'' initialState)))
       = complete"
  by (simp add: mergeWithFFmpeg_def initFFmpeg_def cleanUpAndSave_def setProgress_def
      addEffect_def Let_def failingEngine_def exitCodeEngine_def okEngine_def initialState_def
      mergeArgs_def)

section \<open>The proxy relay and the \<^verbatim>\<open>Range\<close> header\<close>

lemma map_of_optHeader:
  "map_of (optHeader k v) k' = (if k' = k \<and> truthy v then v else None)"
  by (auto simp: optHeader_def truthy_def split: option.splits)

lemma map_of_base_ContentRange: "map_of (baseResponseHeaders ct ar) ''Content-Range'' = None"
  by (simp add: baseResponseHeaders_def)

lemma map_of_stream_Range: "map_of streamRequestHeaders ''Range'' = None"
  by (simp add: streamRequestHeaders_def)

lemma primaryResponse_status:
  "responseStatus (primaryResponse format rangeHeader) = (if truthy rangeHeader then 206 else 200)"
  by (simp add: primaryResponse_def responseStatus_def Let_def)

lemma primaryResponse_ContentRange:
  "responseHeader (primaryResponse format rangeHeader) ''Content-Range''
     = (if truthy rangeHeader then rangeHeader else None)"
  by (simp add: primaryResponse_def responseHeader_def Let_def map_add_def
      map_of_optHeader map_of_base_ContentRange)

lemma fallbackResponse_status:
  "200 \<le> up_status response \<Longrightarrow> up_status response \<le> 299 \<Longrightarrow>
   responseStatus (fallbackResponse format response)
     = (if up_status response = 206 then 206 else 200)"
  by (simp add: fallbackResponse_def responseStatus_def Let_def)

lemma fallbackResponse_ContentRange:
  "200 \<le> up_status response \<Longrightarrow> up_status response \<le> 299 \<Longrightarrow>
   responseHeader (fallbackResponse format response) ''Content-Range''
     = (if truthy (up_contentRange response) then up_contentRange response else None)"
  by (simp add: fallbackResponse_def responseHeader_def Let_def map_add_def
      map_of_optHeader map_of_base_ContentRange)

lemma fetchRequestHeaders_Range:
  "map_of (fetchRequestHeaders rangeHeader) ''Range''
     = (if truthy rangeHeader then rangeHeader else None)"
  by (simp add: fetchRequestHeaders_def map_add_def map_of_optHeader map_of_stream_Range)

text \<open>
  The two paths of the relay, for a request whose \<^verbatim>\<open>videoId\<close> and \<^verbatim>\<open>itag\<close> resolve to
  a usable descriptor (found, with an address, not WebP). On the primary path the
  handler calls \<^verbatim>\<open>getInfo\<close> and \<^verbatim>\<open>downloadFromInfo\<close>, the latter with request headers
  that hold no \<^verbatim>\<open>Range\<close>, whatever the request carries.
\<close>

lemma GET_download_primary_path:
  assumes "vid \<noteq> []" and "itagText \<noteq> []"
    and "List.find (\<lambda>f. Some (raw_itag f) = parseInt itagText) (info_formats info) = Some format"
    and "raw_url format = Some u" and "u \<noteq> []" and "\<not> rawIsWebP format"
  shows
    "fst (GET_download (Some vid) (Some itagText) rangeHeader (Returned info) (Returned ()) fetched)
       = [GetInfo vid, DownloadFromInfo (raw_itag format) streamRequestHeaders]
     \<and> map_of streamRequestHeaders ''Range'' = None
     \<and> responseStatus (snd (GET_download (Some vid) (Some itagText) rangeHeader (Returned info)
          (Returned ()) fetched)) = (if truthy rangeHeader then 206 else 200)
     \<and> responseHeader (snd (GET_download (Some vid) (Some itagText) rangeHeader (Returned info)
          (Returned ()) fetched)) ''Content-Range''
         = (if truthy rangeHeader then rangeHeader else None)"
  using assms
  by (simp add: GET_download_def primaryResponse_status primaryResponse_ContentRange
      map_of_stream_Range)

text \<open>
  On the fallback path (\<^verbatim>\<open>downloadFromInfo\<close> threw, not an access denial, and the
  upstream answers the direct fetch with a success status) the inbound \<^verbatim>\<open>Range\<close>
  header is among the request headers of the fetch.
\<close>

lemma GET_download_fallback_path:
  assumes "vid \<noteq> []" and "itagText \<noteq> []"
    and "List.find (\<lambda>f. Some (raw_itag f) = parseInt itagText) (info_formats info) = Some format"
    and "raw_url format = Some u" and "u \<noteq> []" and "\<not> rawIsWebP format"
    and "\<not> is403 e" and "200 \<le> up_status response" and "up_status response \<le> 299"
  shows
    "map_option (\<lambda>hs. map_of hs ''Range'')
       (directFetchHeaders (fst (GET_download (Some vid) (Some itagText) rangeHeader
          (Returned info) (Threw e) (Returned response))))
       = Some (if truthy rangeHeader then rangeHeader else None)
     \<and> responseStatus (snd (GET_download (Some vid) (Some itagText) rangeHeader
          (Returned info) (Threw e) (Returned response)))
         = (if up_status response = 206 then 206 else 200)
     \<and> responseHeader (snd (GET_download (Some vid) (Some itagText) rangeHeader
          (Returned info) (Threw e) (Returned response))) ''Content-Range''
         = (if truthy (up_contentRange response) then up_contentRange response else None)"
  using assms
  by (simp add: GET_download_def fallbackResponse_status fallbackResponse_ContentRange
      fetchRequestHeaders_Range)

text \<open>
  Claim C5, which the source breaks. The claim: when the request carries a \<^verbatim>\<open>Range\<close>
  header, that header is forwarded upstream and the answer is 206 with
  \<^verbatim>\<open>Content-Range\<close> set; without it the answer is 200. The source reads the header
  "for resumable downloads" (line 21) and forwards it on the fallback path (lines 169
  to 171), but on the primary path it gives \<^verbatim>\<open>downloadFromInfo\<close> no range: for a request
  with \<^verbatim>\<open>Range: bytes=0-99\<close> the calls are \<^verbatim>\<open>getInfo\<close> and \<^verbatim>\<open>downloadFromInfo\<close> with
  headers that hold no \<^verbatim>\<open>Range\<close>, so the whole stream is asked for, and yet the answer
  is 206 with the request's own \<^verbatim>\<open>bytes=0-99\<close> as \<^verbatim>\<open>Content-Range\<close>. The last conjunct
  is the same request on the fallback path, where the header is forwarded.
\<close>

theorem GET_download_primary_drops_range:
  "fst (GET_download (Some ''dQw4w9WgXcQ'') (Some ''18'') (Some ''bytes=0-99'')
      (Returned muxedInfo) (Returned ()) (Returned upstreamOk))
     = [GetInfo ''dQw4w9WgXcQ'', DownloadFromInfo 18 streamRequestHeaders]
   \<and> map_of streamRequestHeaders ''Range'' = None
   \<and> responseStatus (snd (GET_download (Some ''dQw4w9WgXcQ'') (Some ''18'') (Some ''bytes=0-99'')
      (Returned muxedInfo) (Returned ()) (Returned upstreamOk))) = 206
   \<and> responseHeader (snd (GET_download (Some ''dQw4w9WgXcQ'') (Some ''18'') (Some ''bytes=0-99'')
      (Returned muxedInfo) (Returned ()) (Returned upstreamOk))) ''Content-Range''
       = Some ''bytes=0-99''
   \<and> map_option (\<lambda>hs. map_of hs ''Range'')
        (directFetchHeaders (fst (GET_download (Some ''dQw4w9WgXcQ'') (Some ''18'')
           (Some ''bytes=0-99'') (Returned muxedInfo) streamFailure (Returned upstreamPartial))))
       = Some (Some ''bytes=0-99'')"
  by code_simp

section \<open>Cancelling a download\<close>

lemma length_insert_by: "length (insert_by cmp x ys) = Suc (length ys)"
  by (induction ys) simp_all

lemma length_sort_by: "length (sort_by cmp xs) = length xs"
  by (induction xs) (simp_all add: sort_by_def length_insert_by)

lemma sort_by_Nil_iff: "sort_by cmp xs = [] \<longleftrightarrow> xs = []"
  using length_sort_by[of cmp xs] by (metis length_0_conv)

lemma catchDownload_error:
  "st_error (catchDownload f e st)
     = Some (if err_name e = ''AbortError'' then ''Download cancelled'' else failureMessage f e)
   \<and> stage (st_progress (catchDownload f e st)) = idle
   \<and> st_effects (catchDownload f e st) = st_effects st"
  by (simp add: catchDownload_def setProgress_def setError_def)

lemma failureMessage_prefix:
  "prefix (if err_message e = [] then genericFailure else err_message e) (failureMessage f e)"
  by (simp add: failureMessage_def Let_def)

lemma downloadBlob_result_any_state:
  "snd (downloadBlob address signal vid tag xhr ev s0) = snd (downloadBlob address signal vid tag xhr ev s1)"
  by (auto simp: downloadBlob_def proxyFallback_def Let_def split: xhr_event.splits fetch_event.splits option.splits)

lemma mergeDownload_video_rejected:
  assumes "filter isAudioOnly (formats info) \<noteq> []"
    and "snd (downloadBlob (url format) True (Some (videoId info)) (Some (itag format))
            (fst videoEvents) (snd videoEvents) s0) = Rejected e"
  shows "downloadVideo (Some format) (Some info) videoEvents audioEvents eng st
     = (if hasVideo format \<and> \<not> hasAudio format then
        catchDownload format e
         (fst (downloadBlob (url format) True (Some (videoId info)) (Some (itag format))
            (fst videoEvents) (snd videoEvents)
            (setProgress downloading 0 (Some ''Downloading video stream...'')
              ((setProgress downloading 0 (Some ''Starting download...'') (setError None st))
                 \<lparr>st_abortController := True\<rparr>))))
        else downloadVideo (Some format) (Some info) videoEvents audioEvents eng st)"
proof -
  from assms(1) obtain bestAudio rest where
    s: "sort_by cmpBitrate (filter isAudioOnly (formats info)) = bestAudio # rest"
    by (cases "sort_by cmpBitrate (filter isAudioOnly (formats info))")
       (simp_all add: sort_by_Nil_iff)
  let ?s1 = "setProgress downloading 0 (Some ''Downloading video stream...'')
              ((setProgress downloading 0 (Some ''Starting download...'') (setError None st))
                 \<lparr>st_abortController := True\<rparr>)"
  have r: "snd (downloadBlob (url format) True (Some (videoId info)) (Some (itag format))
            (fst videoEvents) (snd videoEvents) ?s1) = Rejected e"
    using assms(2) downloadBlob_result_any_state by metis
  have c: "st_abortController ?s1" by (simp add: setProgress_def)
  show ?thesis
    using assms(1) s r c
    by (cases "downloadBlob (url format) True (Some (videoId info)) (Some (itag format))
            (fst videoEvents) (snd videoEvents) ?s1")
       (simp add: downloadVideo_def mergeDownload_def Let_def)
qed

lemma failureMessage_not_cancelled:
  assumes "err_message e = c # cs" and "c \<noteq> CHR ''D''"
  shows "failureMessage f e \<noteq> ''Download cancelled''"
proof
  assume "failureMessage f e = ''Download cancelled''"
  with failureMessage_prefix[of e f] assms(1) have "prefix (c # cs) ''Download cancelled''"
    by simp
  with assms(2) show False by simp
qed

text \<open>
  Claim C6. A download that needs a merge and is cancelled while the video transfer is
  in flight (the request itself, or the request to the server proxy that it fell back
  to after a network error or a load with status 0) ends with the stage \<^verbatim>\<open>idle\<close> and
  the error \<^verbatim>\<open>Download cancelled\<close>, and the only transfer it has started is the one of
  the video stream: the audio transfer is never initiated. The indicator is specific to
  the cancellation: whenever the video transfer is rejected, the error shown is
  \<^verbatim>\<open>Download cancelled\<close> if the name of the rejection is \<^verbatim>\<open>AbortError\<close>, and otherwise
  the failure message, which begins with the message of the rejection itself (the
  generic message when it has none); a failed request (a status outside 200 to 299 and
  not 0) and a failed proxy request are not shown as \<^verbatim>\<open>Download cancelled\<close>.
\<close>

theorem downloadVideo_cancelled_during_video:
  assumes "hasVideo format" and "\<not> hasAudio format"
    and "filter isAudioOnly (formats info) \<noteq> []"
  shows
    "let final = downloadVideo (Some format) (Some info) videoEvents audioEvents eng st in
      (fst videoEvents = XhrAborted \<longrightarrow>
          st_effects final = st_effects st @ [XhrSend (url format), XhrAbort]
        \<and> stage (st_progress final) = idle
        \<and> st_error final = Some ''Download cancelled'')
    \<and> ((fst videoEvents = XhrError \<or> fst videoEvents = XhrLoad 0 statusText body)
          \<longrightarrow> snd videoEvents = FetchAborted \<longrightarrow> videoId info \<noteq> [] \<longrightarrow> itag format \<noteq> 0 \<longrightarrow>
          st_effects final
            = st_effects st @ [XhrSend (url format), ProxyFetch (videoId info) (itag format),
                               XhrAbort]
        \<and> stage (st_progress final) = idle
        \<and> st_error final = Some ''Download cancelled'')
    \<and> (\<forall>s0 e. snd (downloadBlob (url format) True (Some (videoId info)) (Some (itag format))
                    (fst videoEvents) (snd videoEvents) s0) = Rejected e \<longrightarrow>
          stage (st_progress final) = idle
        \<and> st_error final
            = Some (if err_name e = ''AbortError'' then ''Download cancelled''
                    else failureMessage format e)
        \<and> prefix (if err_message e = [] then genericFailure else err_message e)
            (failureMessage format e))
    \<and> (fst videoEvents = XhrLoad status statusText body \<longrightarrow> \<not> (200 \<le> status \<and> status < 300)
          \<longrightarrow> status \<noteq> 0 \<longrightarrow>
          st_error final
            = Some (failureMessage format
                (JsError ''Error'' (''Failed to download: '' @ statusSuffix statusText status)))
        \<and> st_error final \<noteq> Some ''Download cancelled'')
    \<and> ((fst videoEvents = XhrError \<or> fst videoEvents = XhrLoad 0 statusText body)
          \<longrightarrow> snd videoEvents = FetchResponse status proxyText proxyBody
          \<longrightarrow> \<not> (200 \<le> status \<and> status \<le> 299) \<longrightarrow> videoId info \<noteq> [] \<longrightarrow> itag format \<noteq> 0 \<longrightarrow>
          st_error final
            = Some (failureMessage format
                (JsError ''Error'' (''Server proxy failed: '' @ statusSuffix proxyText status)))
        \<and> st_error final \<noteq> Some ''Download cancelled'')"
proof -
  from assms(3) obtain bestAudio rest where
    s: "sort_by cmpBitrate (filter isAudioOnly (formats info)) = bestAudio # rest"
    by (cases "sort_by cmpBitrate (filter isAudioOnly (formats info))")
       (simp_all add: sort_by_Nil_iff)
  let ?final = "downloadVideo (Some format) (Some info) videoEvents audioEvents eng st"
  have a: "fst videoEvents = XhrAborted \<longrightarrow>
          st_effects ?final = st_effects st @ [XhrSend (url format), XhrAbort]
        \<and> stage (st_progress ?final) = idle
        \<and> st_error ?final = Some ''Download cancelled''"
    using assms s
    by (simp add: downloadVideo_def mergeDownload_def downloadBlob_def proxyFallback_def
        catchDownload_def cancelDownload_def setProgress_def setError_def addEffect_def
        abortError_def Let_def)
  have b: "(fst videoEvents = XhrError \<or> fst videoEvents = XhrLoad 0 statusText body)
          \<longrightarrow> snd videoEvents = FetchAborted \<longrightarrow> videoId info \<noteq> [] \<longrightarrow> itag format \<noteq> 0 \<longrightarrow>
          st_effects ?final
            = st_effects st @ [XhrSend (url format), ProxyFetch (videoId info) (itag format),
                               XhrAbort]
        \<and> stage (st_progress ?final) = idle
        \<and> st_error ?final = Some ''Download cancelled''"
    using assms s
    by (auto simp: downloadVideo_def mergeDownload_def downloadBlob_def proxyFallback_def
        catchDownload_def cancelDownload_def setProgress_def setError_def addEffect_def
        abortError_def Let_def)
  have c: "stage (st_progress ?final) = idle
        \<and> st_error ?final
            = Some (if err_name e = ''AbortError'' then ''Download cancelled''
                    else failureMessage format e)
        \<and> prefix (if err_message e = [] then genericFailure else err_message e)
            (failureMessage format e)"
    if "snd (downloadBlob (url format) True (Some (videoId info)) (Some (itag format))
                    (fst videoEvents) (snd videoEvents) s0) = Rejected e" for s0 e
    using mergeDownload_video_rejected[OF assms(3) that, of audioEvents eng st] assms(1,2)
      catchDownload_error failureMessage_prefix[of e format]
    by simp
  have r1: "snd (downloadBlob (url format) True (Some (videoId info)) (Some (itag format))
                    (fst videoEvents) (snd videoEvents) st)
      = Rejected (JsError ''Error'' (''Failed to download: '' @ statusSuffix statusText status))"
    if "fst videoEvents = XhrLoad status statusText body" "\<not> (200 \<le> status \<and> status < 300)"
       "status \<noteq> 0"
    using that by (simp add: downloadBlob_def Let_def)
  have d: "fst videoEvents = XhrLoad status statusText body \<longrightarrow> \<not> (200 \<le> status \<and> status < 300)
          \<longrightarrow> status \<noteq> 0 \<longrightarrow>
          st_error ?final
            = Some (failureMessage format
                (JsError ''Error'' (''Failed to download: '' @ statusSuffix statusText status)))
        \<and> st_error ?final \<noteq> Some ''Download cancelled''"
    using c[OF r1] failureMessage_not_cancelled[of
        "JsError ''Error'' (''Failed to download: '' @ statusSuffix statusText status)"
        "CHR ''F''" _ format]
    by simp
  have r2: "snd (downloadBlob (url format) True (Some (videoId info)) (Some (itag format))
                    (fst videoEvents) (snd videoEvents) st)
      = Rejected (JsError ''Error'' (''Server proxy failed: '' @ statusSuffix proxyText status))"
    if "fst videoEvents = XhrError \<or> fst videoEvents = XhrLoad 0 statusText body"
       "snd videoEvents = FetchResponse status proxyText proxyBody"
       "\<not> (200 \<le> status \<and> status \<le> 299)" "videoId info \<noteq> []" "itag format \<noteq> 0"
    using that by (auto simp: downloadBlob_def proxyFallback_def Let_def)
  have e: "(fst videoEvents = XhrError \<or> fst videoEvents = XhrLoad 0 statusText body)
          \<longrightarrow> snd videoEvents = FetchResponse status proxyText proxyBody
          \<longrightarrow> \<not> (200 \<le> status \<and> status \<le> 299) \<longrightarrow> videoId info \<noteq> [] \<longrightarrow> itag format \<noteq> 0 \<longrightarrow>
          st_error ?final
            = Some (failureMessage format
                (JsError ''Error'' (''Server proxy failed: '' @ statusSuffix proxyText status)))
        \<and> st_error ?final \<noteq> Some ''Download cancelled''"
    using c[OF r2] failureMessage_not_cancelled[of
        "JsError ''Error'' (''Server proxy failed: '' @ statusSuffix proxyText status)"
        "CHR ''S''" _ format]
    by simp
  from a b c d e show ?thesis unfolding Let_def by blast
qed

theorem downloadVideo_cancelled_during_video_witness:
  "st_effects (downloadVideo (Some (exampleFormat 137 True False (Some 1080) (Some 4500000)))
       (Some exampleVideoInfo) (XhrAborted, FetchAborted) (XhrLoad 200 ''OK'' ''audio'', FetchAborted)
       okEngine initialState)
     = [XhrSend (Some ''https://example.com/stream''), XhrAbort]
   \<and> stage (st_progress (downloadVideo
       (Some (exampleFormat 137 True False (Some 1080) (Some 4500000)))
       (Some exampleVideoInfo) (XhrAborted, FetchAborted) (XhrLoad 200 ''OK'' ''audio'', FetchAborted)
       okEngine initialState)) = idle
   \<and> st_error (downloadVideo (Some (exampleFormat 137 True False (Some 1080) (Some 4500000)))
       (Some exampleVideoInfo) (XhrAborted, FetchAborted) (XhrLoad 200 ''OK'' ''audio'', FetchAborted)
       okEngine initialState) = Some ''Download cancelled''
   \<and> st_effects (downloadVideo (Some (exampleFormat 137 True False (Some 1080) (Some 4500000)))
       (Some exampleVideoInfo) (XhrLoad 0 [] [], FetchAborted)
       (XhrLoad 200 ''OK'' ''audio'', FetchAborted) okEngine initialState)
     = [XhrSend (Some ''https://example.com/stream''), ProxyFetch ''dQw4w9WgXcQ'' 137, XhrAbort]
   \<and> st_error (downloadVideo (Some (exampleFormat 137 True False (Some 1080) (Some 4500000)))
       (Some exampleVideoInfo) (XhrLoad 0 [] [], FetchAborted)
       (XhrLoad 200 ''OK'' ''audio'', FetchAborted) okEngine initialState)
     = Some ''Download cancelled''
   \<and> st_error (downloadVideo (Some (exampleFormat 137 True False (Some 1080) (Some 4500000)))
       (Some exampleVideoInfo) (XhrLoad 500 ''Internal Server Error'' [], FetchAborted)
       (XhrLoad 200 ''OK'' ''audio'', FetchAborted) okEngine initialState)
     = Some ''Failed to download: Internal Server Error (500)''"
proof -
  let ?f = "exampleFormat 137 True False (Some 1080) (Some 4500000)"
  have a: "filter isAudioOnly (formats exampleVideoInfo) \<noteq> []"
    by (simp add: exampleVideoInfo_def exampleCatalog_def exampleFormat_def isAudioOnly_def)
  have v: "hasVideo ?f" and n: "\<not> hasAudio ?f"
    by (simp_all add: exampleFormat_def)
  have m: "failureMessage ?f
      (JsError ''Error'' (''Failed to download: '' @ statusSuffix ''Internal Server Error'' 500))
      = ''Failed to download: Internal Server Error (500)''"
    by code_simp
  from downloadVideo_cancelled_during_video[OF v n a,
      where videoEvents = "(XhrAborted, FetchAborted)"
        and audioEvents = "(XhrLoad 200 ''OK'' ''audio'', FetchAborted)"
        and eng = okEngine and st = initialState]
    downloadVideo_cancelled_during_video[OF v n a,
      where videoEvents = "(XhrLoad 0 [] [], FetchAborted)"
        and audioEvents = "(XhrLoad 200 ''OK'' ''audio'', FetchAborted)"
        and eng = okEngine and st = initialState and statusText = "[]" and body = "[]"]
    downloadVideo_cancelled_during_video[OF v n a,
      where videoEvents = "(XhrLoad 500 ''Internal Server Error'' [], FetchAborted)"
        and audioEvents = "(XhrLoad 200 ''OK'' ''audio'', FetchAborted)"
        and eng = okEngine and st = initialState and statusText = "''Internal Server Error''"
        and body = "[]" and status = 500] m
  show ?thesis
    by (simp add: Let_def exampleFormat_def exampleVideoInfo_def initialState_def)
qed

end
